theory Spec2Isabelle
  imports Complex_Main "HOL-Library.AList" "HOL-Library.Log_Nat"
begin

section \<open>Numbers\<close>

text \<open>
  The services compute with Python floats. In the sizer, the exit planner and the
  strategies they are modelled as \<^typ>\<open>real\<close>: the statements about them are about the
  arithmetic the code writes down. Where the rounding of a double decides a property (the
  combined confidence of the ensemble), the computation is modelled again in binary64
  arithmetic, below. Python's \<^verbatim>\<open>int(x)\<close> on a float truncates toward zero and
  \<^verbatim>\<open>math.ceil\<close> rounds up; both return unbounded integers.
\<close>

definition py_int :: "real \<Rightarrow> int" where
  "py_int x = (if 0 \<le> x then \<lfloor>x\<rfloor> else \<lceil>x\<rceil>)"

definition math_ceil :: "real \<Rightarrow> int" where
  "math_ceil x = \<lceil>x\<rceil>"

section \<open>Position sizer: \<^verbatim>\<open>RiskManagementService.calculate_position_size\<close>\<close>

record RiskProfile =
  max_portfolio_risk :: real
  max_stock_allocation :: real

text \<open>
  What the database queries of one call return: the user's risk profile (\<open>None\<close> when the
  user is missing or has no profile), the portfolio's \<open>total_value\<close> (\<open>None\<close> when there is
  no portfolio), whether the instrument exists, the \<open>current_value\<close> of every active
  position in the instrument, and the values returned by
  \<^verbatim>\<open>calculate_fundamental_adjustment\<close> and \<^verbatim>\<open>calculate_correlation_adjustment\<close>.
\<close>

record sizing_db =
  risk_profile :: "RiskProfile option"
  portfolio_total_value :: "real option"
  instrument_found :: bool
  current_position_values :: "real list"
  fundamental_adjustment_of :: real
  correlation_adjustment_of :: real

datatype sizing_error =
  UserNotFound | PortfolioNotFound | InstrumentNotFound
  | MaximumAllocationReached | FloatDivisionByZero

record sizing_result =
  contracts :: int
  min_contracts :: int
  max_contracts :: int
  position_value :: real
  min_position_size :: real
  max_capital :: real
  risk_per_trade :: real
  contract_value :: real
  portfolio_value :: real
  current_allocation :: real
  available_allocation :: real
  confidence_multiplier :: real
  max_scaling :: real
  fundamental_adjustment :: real
  correlation_adjustment :: real
  combined_adjustment :: real

text \<open>Confidence-based scaling of the minimum (lines 108--119).\<close>

definition max_scaling_of :: "real \<Rightarrow> real" where
  "max_scaling_of signal_confidence =
     (if signal_confidence \<ge> 0.9 then 2.0
      else if signal_confidence \<ge> 0.8 then 1.5
      else if signal_confidence \<ge> 0.7 then 1.25
      else 1.0)"

text \<open>
  The body of the method. Every early \<^verbatim>\<open>return\<close> with an \<^verbatim>\<open>"error"\<close> key is an
  \<open>Inl\<close>; the division by \<open>contract_value\<close> raises \<^verbatim>\<open>ZeroDivisionError\<close> when the option
  price is zero, which the enclosing \<^verbatim>\<open>except Exception\<close> turns into an error result.
\<close>

definition calculate_position_size ::
  "sizing_db \<Rightarrow> real \<Rightarrow> real \<Rightarrow> sizing_error + sizing_result" where
  "calculate_position_size db signal_confidence option_price =
     (case risk_profile db of
        None \<Rightarrow> Inl UserNotFound
      | Some profile \<Rightarrow>
     (case portfolio_total_value db of
        None \<Rightarrow> Inl PortfolioNotFound
      | Some pv \<Rightarrow>
     if \<not> instrument_found db then Inl InstrumentNotFound
     else
       let risk_per_trade0 = pv * (max_portfolio_risk profile / 100);
           conf_mult = 0.5 + signal_confidence;
           adjusted_risk = risk_per_trade0 * conf_mult;
           max_cap = adjusted_risk;
           min_pos = max 33000 (pv * 0.33);
           cv = option_price * 100
       in if cv = 0 then Inl FloatDivisionByZero
       else
       let min_c = math_ceil (min_pos / cv);
           scaling = max_scaling_of signal_confidence;
           scaled_contracts = min (py_int (real_of_int min_c * scaling)) (py_int (max_cap / cv));
           contracts0 = max min_c scaled_contracts;
           max_stock_capital = pv * (max_stock_allocation profile / 100);
           cur_alloc = sum_list (current_position_values db);
           avail = max_stock_capital - cur_alloc
       in if avail \<le> 0 then Inl MaximumAllocationReached
       else
       let position_value0 = real_of_int contracts0 * cv;
           contracts1 = (if position_value0 > avail then py_int (avail / cv) else contracts0);
           position_value1 = (if position_value0 > avail then real_of_int contracts1 * cv
                              else position_value0);
           contracts2 = (if position_value1 < min_pos \<and> avail \<ge> min_pos
                         then math_ceil (min_pos / cv) else contracts1);
           fa = fundamental_adjustment_of db;
           ca = correlation_adjustment_of db;
           combined = fa * ca;
           adjusted_contracts = py_int (real_of_int contracts2 * combined);
           final_contracts = max min_c adjusted_contracts;
           final_position_value = real_of_int final_contracts * cv
       in Inr \<lparr> contracts = final_contracts,
                min_contracts = min_c,
                max_contracts = scaled_contracts,
                position_value = final_position_value,
                min_position_size = min_pos,
                max_capital = max_cap,
                risk_per_trade = adjusted_risk,
                contract_value = cv,
                portfolio_value = pv,
                current_allocation = cur_alloc,
                available_allocation = avail,
                confidence_multiplier = conf_mult,
                max_scaling = scaling,
                fundamental_adjustment = fa,
                correlation_adjustment = ca,
                combined_adjustment = combined \<rparr>))"


text \<open>The quantities the sizing properties speak about.\<close>

definition minimum_floor :: "real \<Rightarrow> real" where
  "minimum_floor pv = max 33000 (pv * 0.33)"

definition headroom :: "RiskProfile \<Rightarrow> real \<Rightarrow> real list \<Rightarrow> real" where
  "headroom profile pv vals = pv * (max_stock_allocation profile / 100) - sum_list vals"

section \<open>Exit planner\<close>

text \<open>
  The fields of a position that \<^verbatim>\<open>calculate_dynamic_take_profit\<close> and
  \<^verbatim>\<open>implement_partial_profit_taking\<close> read. \<open>stop_loss_price\<close> may be unset.
\<close>

record Position =
  entry_price :: real
  current_price :: real
  stop_loss_price :: "real option"
  quantity :: int

datatype risk_error = PositionNotFound

record dynamic_take_profit =
  dtp_entry_price :: real
  dtp_current_price :: real
  dtp_current_profit_pct :: real
  initial_stop_loss :: real
  adjusted_stop_loss :: real
  take_profit_price :: real
  risk_reward_ratio :: real
  initial_risk :: real

text \<open>
  \<^verbatim>\<open>calculate_dynamic_take_profit\<close>: the argument is what the position query returns.
  \<^verbatim>\<open>if not initial_stop_loss\<close> holds for \<^verbatim>\<open>None\<close> and for 0.0.
\<close>

definition calculate_dynamic_take_profit ::
  "Position option \<Rightarrow> real \<Rightarrow> risk_error + dynamic_take_profit" where
  "calculate_dynamic_take_profit position_row current_profit_pct =
     (case position_row of
        None \<Rightarrow> Inl PositionNotFound
      | Some position \<Rightarrow>
          let init_sl = (case stop_loss_price position of
                           None \<Rightarrow> entry_price position * 0.8
                         | Some sl \<Rightarrow> if sl = 0 then entry_price position * 0.8 else sl);
              init_risk = \<bar>entry_price position - init_sl\<bar>;
              rr = (if current_profit_pct < 0.15 then 1.5
                    else if current_profit_pct < 0.30 then 2.0
                    else 3.0);
              tp = entry_price position + init_risk * rr;
              trailing_stop =
                (if current_profit_pct > 0.30
                 then entry_price position + (current_price position - entry_price position) * 0.5
                 else if current_profit_pct > 0.15
                 then entry_price position + (current_price position - entry_price position) * 0.25
                 else init_sl);
              adj = max init_sl trailing_stop
          in Inr \<lparr> dtp_entry_price = entry_price position,
                   dtp_current_price = current_price position,
                   dtp_current_profit_pct = current_profit_pct,
                   initial_stop_loss = init_sl,
                   adjusted_stop_loss = adj,
                   take_profit_price = tp,
                   risk_reward_ratio = rr,
                   initial_risk = init_risk \<rparr>)"

subsection \<open>Partial profit taking\<close>

text \<open>A row of the partial-close ledger (the timestamp, read from the clock, is left out).\<close>

record PartialProfitTaking =
  ppt_position_id :: nat
  percentage_closed :: real
  ppt_price :: real
  profit_percentage :: real

text \<open>The part of the database the method reads and writes.\<close>

record risk_db =
  positions :: "nat \<rightharpoonup> Position"
  profit_takings :: "PartialProfitTaking list"

datatype profit_action =
  PartialClose (percentage_to_close: real) (contracts_to_close: int)
    (threshold_triggered: real) (total_percentage_closed: real)
  | Hold real

text \<open>The ladder: pairs \<open>(profit_pct, take_pct)\<close>.\<close>

definition thresholds :: "(real \<times> real) list" where
  "thresholds = [(0.20, 0.25), (0.35, 0.25), (0.50, 0.25)]"

text \<open>
  \<^verbatim>\<open>sum(t["take_pct"] for t in thresholds if t["profit_pct"] <= threshold["profit_pct"])\<close>
\<close>

definition target_total_pct :: "real \<times> real \<Rightarrow> real" where
  "target_total_pct threshold =
     sum_list (map snd (filter (\<lambda>t. fst t \<le> fst threshold) thresholds))"

definition total_pct_taken :: "risk_db \<Rightarrow> nat \<Rightarrow> real" where
  "total_pct_taken db pid =
     sum_list (map percentage_closed (filter (\<lambda>ppt. ppt_position_id ppt = pid) (profit_takings db)))"

text \<open>
  The \<^verbatim>\<open>for threshold in thresholds\<close> loop: the first threshold that is reached, not
  yet released and leaves a positive amount to take returns \<open>(pct_to_take_now, profit_pct)\<close>;
  a threshold whose amount is not positive falls through to the next one.
\<close>

fun first_triggered :: "(real \<times> real) list \<Rightarrow> real \<Rightarrow> real \<Rightarrow> (real \<times> real) option" where
  "first_triggered [] current_profit_pct taken = None"
| "first_triggered (threshold # rest) current_profit_pct taken =
     (if current_profit_pct \<ge> fst threshold \<and> taken < target_total_pct threshold
      then let pct_to_take_now = min (target_total_pct threshold - taken) (1.0 - taken)
           in if pct_to_take_now > 0 then Some (pct_to_take_now, fst threshold)
              else first_triggered rest current_profit_pct taken
      else first_triggered rest current_profit_pct taken)"

definition implement_partial_profit_taking ::
  "risk_db \<Rightarrow> nat \<Rightarrow> real \<Rightarrow> (risk_error + profit_action) \<times> risk_db" where
  "implement_partial_profit_taking db pid current_profit_pct =
     (case positions db pid of
        None \<Rightarrow> (Inl PositionNotFound, db)
      | Some position \<Rightarrow>
          let taken = total_pct_taken db pid
          in case first_triggered thresholds current_profit_pct taken of
               Some (pct_to_take_now, th) \<Rightarrow>
                 (Inr (PartialClose pct_to_take_now
                         (py_int (real_of_int (quantity position) * pct_to_take_now))
                         th (taken + pct_to_take_now)),
                  db\<lparr> profit_takings := profit_takings db @
                        [\<lparr> ppt_position_id = pid, percentage_closed = pct_to_take_now,
                           ppt_price = current_price position,
                           profit_percentage = current_profit_pct \<rparr>] \<rparr>)
             | None \<Rightarrow> (Inr (Hold taken), db))"

text \<open>A sequence of calls for one position, each on the database the previous one left.\<close>

definition profit_taking_calls :: "risk_db \<Rightarrow> nat \<Rightarrow> real list \<Rightarrow> risk_db" where
  "profit_taking_calls db pid profits =
     foldl (\<lambda>d p. snd (implement_partial_profit_taking d pid p)) db profits"

section \<open>Binary64 arithmetic\<close>

text \<open>
  A Python float is an IEEE 754 binary64 number: a sign, a 53-bit significand and a binary
  exponent. Each arithmetic operation returns the exact result rounded to the nearest
  such number, ties going to the even significand. \<open>round_double\<close> is that rounding on the
  reals; its exponent range is not bounded, so it is binary64 wherever no value underflows
  below \<open>2\<^sup>-\<^sup>1\<^sup>0\<^sup>2\<^sup>2\<close> or overflows, as is the case for sums and quotients of confidence
  scores and weights.
\<close>

text \<open>Rounding to the nearest integer, ties to even.\<close>

definition round_half_even :: "real \<Rightarrow> int" where
  "round_half_even y =
     (let f = \<lfloor>y\<rfloor>; d = y - real_of_int f
      in if d < 1 / 2 then f
         else if d > 1 / 2 then f + 1
         else if even f then f else f + 1)"

text \<open>For \<open>x > 0\<close>, the integer \<open>e\<close> with \<open>2\<^sup>e \<le> x < 2\<^sup>e\<^sup>+\<^sup>1\<close>.\<close>

definition binary_exponent :: "real \<Rightarrow> int" where
  "binary_exponent x =
     (if 1 \<le> x then bitlen \<lfloor>x\<rfloor> - 1
      else let k = bitlen \<lfloor>1 / x\<rfloor> - 1
           in if x * power_int 2 k = 1 then - k else - k - 1)"

definition round_double :: "real \<Rightarrow> real" where
  "round_double x =
     (if x = 0 then 0
      else let q = power_int 2 (binary_exponent \<bar>x\<bar> - 52)
           in real_of_int (round_half_even (x / q)) * q)"

text \<open>The unit roundoff of binary64, \<open>2\<^sup>-\<^sup>5\<^sup>3\<close>.\<close>

definition unit_roundoff :: real where
  "unit_roundoff = 1 / 2 ^ 53"

definition double_add :: "real \<Rightarrow> real \<Rightarrow> real" where
  "double_add x y = round_double (x + y)"

definition double_mul :: "real \<Rightarrow> real \<Rightarrow> real" where
  "double_mul x y = round_double (x * y)"

definition double_div :: "real \<Rightarrow> real \<Rightarrow> real" where
  "double_div x y = round_double (x / y)"

section \<open>Signals, instruments and the option chain\<close>

datatype SignalType =
  LONG_CALL | LONG_PUT | SHORT_CALL | SHORT_PUT | CALL_SPREAD | PUT_SPREAD
  | IRON_CONDOR | BUTTERFLY | CALENDAR_SPREAD | DIAGONAL_SPREAD

datatype SignalSource =
  TECHNICAL | FUNDAMENTAL | VOLATILITY | MOMENTUM | EARNINGS | SENTIMENT
  | CORRELATION | ENSEMBLE

text \<open>
  A signal, with the columns the strategies set and read. Dates are day numbers. The
  constant columns (\<open>status = PENDING\<close>, \<open>entry_price = None\<close>, \<open>time_frame = '7d'\<close>) and
  the free-text notes are left out; \<open>indicator\<close>, \<open>strategies\<close> and \<open>strategy_count\<close> are the
  entries of the \<open>parameters\<close> column of that name.
\<close>

record Signal =
  sig_instrument_id :: nat
  signal_type :: SignalType
  signal_source :: SignalSource
  target_price :: "real option"
  stop_loss :: "real option"
  confidence_score :: real
  option_id :: "nat option"
  option_strike :: "real option"
  option_expiration :: "int option"
  indicator :: string
  strategies :: "string list"
  strategy_count :: nat

record Instrument =
  inst_id :: nat
  symbol :: string
  last_price :: "real option"
  next_earnings_date :: "int option"

record Option_row =
  opt_id :: nat
  opt_instrument_id :: nat
  expiration_date :: int
  option_type :: string
  strike_price :: real

text \<open>
  What a strategy sees of the database and the clock: the option table, today's date,
  and whether committing a given signal succeeds (\<^verbatim>\<open>save_signal\<close> returns \<^verbatim>\<open>None\<close> when
  the commit raises).
\<close>

record signal_db =
  options_table :: "Option_row list"
  today :: int
  save_succeeds :: "Signal \<Rightarrow> bool"

text \<open>Python's \<^verbatim>\<open>min(options, key=...)\<close>: the first element with the least key.\<close>

fun py_min_by :: "('a \<Rightarrow> real) \<Rightarrow> 'a \<Rightarrow> 'a list \<Rightarrow> 'a" where
  "py_min_by key best [] = best"
| "py_min_by key best (x # xs) =
     (if key x < key best then py_min_by key x xs else py_min_by key best xs)"

text \<open>\<^verbatim>\<open>find_atm_options\<close> with its default \<^verbatim>\<open>days_to_expiration = 7\<close>.\<close>

definition find_atm_options :: "signal_db \<Rightarrow> nat \<Rightarrow> real \<Rightarrow> string \<Rightarrow> Option_row option" where
  "find_atm_options db instrument_id cp otype =
     (let target_date = today db + 7;
          min_date = target_date - 2;
          max_date = target_date + 2;
          options = filter (\<lambda>opt. opt_instrument_id opt = instrument_id
                                  \<and> expiration_date opt \<ge> min_date
                                  \<and> expiration_date opt \<le> max_date
                                  \<and> option_type opt = otype) (options_table db)
      in case options of
           [] \<Rightarrow> None
         | opt # opts \<Rightarrow> Some (py_min_by (\<lambda>x. \<bar>strike_price x - cp\<bar>) opt opts))"

definition save_signal :: "signal_db \<Rightarrow> Signal \<Rightarrow> Signal option" where
  "save_signal db signal_data = (if save_succeeds db signal_data then Some signal_data else None)"

section \<open>Ensemble aggregator\<close>

text \<open>One constituent strategy's \<^verbatim>\<open>generate_signals\<close> either raises or returns a list.\<close>

datatype strategy_run = Raises | Returns "Signal list"

text \<open>
  One iteration of the collection loop with its inner \<^verbatim>\<open>try/except\<close>: a raising strategy
  is logged and skipped, an empty result is skipped, anything else is stored under the
  strategy's name (a dictionary assignment, so a repeated name overwrites in place).
\<close>

definition collect_step ::
  "(string \<times> Signal list) list \<Rightarrow> string \<times> strategy_run \<Rightarrow> (string \<times> Signal list) list" where
  "collect_step strategy_signals entry =
     (case snd entry of
        Raises \<Rightarrow> strategy_signals
      | Returns signals \<Rightarrow>
          if signals \<noteq> [] then AList.update (fst entry) signals strategy_signals
          else strategy_signals)"

definition collect_strategy_signals ::
  "(string \<times> strategy_run) list \<Rightarrow> (string \<times> Signal list) list" where
  "collect_strategy_signals runs = foldl collect_step [] runs"

text \<open>The grouping loop, for one signal type.\<close>

definition signals_of_type ::
  "SignalType \<Rightarrow> (string \<times> Signal list) list \<Rightarrow> (string \<times> Signal) list" where
  "signals_of_type t strategy_signals =
     concat (map (\<lambda>(name, signals).
                    map (Pair name) (filter (\<lambda>s. signal_type s = t) signals)) strategy_signals)"

text \<open>
  \<^verbatim>\<open>sum(s.confidence_score for _, s in bucket) / len(bucket)\<close>; on an empty bucket (possible
  when \<open>min_strategies \<le> 0\<close>) the division raises.
\<close>

definition avg_confidence :: "(string \<times> Signal) list \<Rightarrow> real option" where
  "avg_confidence bucket =
     (if bucket = [] then None
      else Some (sum_list (map (\<lambda>(_, s). confidence_score s) bucket) / real (length bucket)))"

subsection \<open>Weighted confidence\<close>

definition strategy_weights :: "string \<rightharpoonup> real" where
  "strategy_weights = map_of
     [(''rsi'', 0.7), (''macd'', 0.8), (''bollinger'', 0.6), (''momentum'', 0.7),
      (''earnings'', 0.9), (''valuation'', 0.8), (''analyst'', 0.7),
      (''iv_percentile'', 0.8), (''iv_skew'', 0.7), (''vol_surface'', 0.6)]"

definition source_weights :: "SignalSource \<rightharpoonup> real" where
  "source_weights = map_of
     [(TECHNICAL, 0.7), (FUNDAMENTAL, 0.9), (VOLATILITY, 0.8), (MOMENTUM, 0.7),
      (ENSEMBLE, 0.0)]"

definition dict_get :: "('k \<rightharpoonup> 'v) \<Rightarrow> 'k \<Rightarrow> 'v \<Rightarrow> 'v" where
  "dict_get d k dflt = (case d k of None \<Rightarrow> dflt | Some v \<Rightarrow> v)"

definition combined_weight :: "string \<Rightarrow> Signal \<Rightarrow> real" where
  "combined_weight strategy_name signal =
     (dict_get strategy_weights strategy_name 0.5
      + dict_get source_weights (signal_source signal) 0.5) / 2.0"

text \<open>The accumulation loop of \<^verbatim>\<open>calculate_weighted_confidence\<close>.\<close>

fun weighted_totals :: "(string \<times> Signal) list \<Rightarrow> real \<Rightarrow> real \<Rightarrow> real \<times> real" where
  "weighted_totals [] total_weight weighted_sum = (total_weight, weighted_sum)"
| "weighted_totals ((strategy_name, signal) # rest) total_weight weighted_sum =
     weighted_totals rest
       (total_weight + combined_weight strategy_name signal)
       (weighted_sum + confidence_score signal * combined_weight strategy_name signal)"

definition calculate_weighted_confidence :: "(string \<times> Signal) list \<Rightarrow> real" where
  "calculate_weighted_confidence signals =
     (if signals = [] then 0.0
      else case weighted_totals signals 0.0 0.0 of
             (total_weight, weighted_sum) \<Rightarrow>
               if total_weight > 0 then weighted_sum / total_weight else 0.0)"

subsection \<open>The combined confidence in binary64 arithmetic\<close>

text \<open>
  The two confidence computations once more, every operation rounded as Python rounds it.
  \<^verbatim>\<open>sum(...)\<close> starts from 0 and adds from left to right (as CPython does up to version
  3.11; the explicit \<^verbatim>\<open>+=\<close> loop of the weighted mean does so in every version); the
  weights of the two tables are the doubles nearest to the decimal literals.
\<close>

definition py_sum_double :: "real list \<Rightarrow> real" where
  "py_sum_double xs = foldl double_add 0 xs"

definition avg_confidence_double :: "(string \<times> Signal) list \<Rightarrow> real option" where
  "avg_confidence_double bucket =
     (if bucket = [] then None
      else Some (double_div (py_sum_double (map (\<lambda>(_, s). confidence_score s) bucket))
                   (real (length bucket))))"

definition combined_weight_double :: "string \<Rightarrow> Signal \<Rightarrow> real" where
  "combined_weight_double strategy_name signal =
     double_div
       (double_add
          (dict_get (map_option round_double \<circ> strategy_weights) strategy_name 0.5)
          (dict_get (map_option round_double \<circ> source_weights) (signal_source signal) 0.5))
       2.0"

fun weighted_totals_double :: "(string \<times> Signal) list \<Rightarrow> real \<Rightarrow> real \<Rightarrow> real \<times> real" where
  "weighted_totals_double [] total_weight weighted_sum = (total_weight, weighted_sum)"
| "weighted_totals_double ((strategy_name, signal) # rest) total_weight weighted_sum =
     weighted_totals_double rest
       (double_add total_weight (combined_weight_double strategy_name signal))
       (double_add weighted_sum
          (double_mul (confidence_score signal) (combined_weight_double strategy_name signal)))"

definition calculate_weighted_confidence_double :: "(string \<times> Signal) list \<Rightarrow> real" where
  "calculate_weighted_confidence_double signals =
     (if signals = [] then 0.0
      else case weighted_totals_double signals 0.0 0.0 of
             (total_weight, weighted_sum) \<Rightarrow>
               if total_weight > 0 then double_div weighted_sum total_weight else 0.0)"

subsection \<open>\<^verbatim>\<open>generate_signals\<close>\<close>

text \<open>
  The call block and the put block of \<^verbatim>\<open>generate_signals\<close> are the same code up to the
  option type and the fallback percentages, and the two classes differ in the confidence
  they compute and the indicator name they record; one definition takes these as
  arguments. Its result is \<open>None\<close> when the method leaves at once with \<open>all_signals\<close> as it
  stands (the \<^verbatim>\<open>return all_signals\<close> after a failed option lookup, or an exception
  caught by the outer handler), and \<open>Some new\<close> when control falls through with \<open>new\<close>
  appended. Saving the signal factors has no effect on the returned list and is left out.
\<close>

definition option_type_of :: "SignalType \<Rightarrow> string" where
  "option_type_of t = (if t = LONG_CALL then ''call'' else ''put'')"

definition fallback_target_price :: "SignalType \<Rightarrow> real \<Rightarrow> real" where
  "fallback_target_price t cp = (if t = LONG_CALL then cp * 1.05 else cp * 0.95)"

definition fallback_stop_loss :: "SignalType \<Rightarrow> real \<Rightarrow> real" where
  "fallback_stop_loss t cp = (if t = LONG_CALL then cp * 0.97 else cp * 1.03)"

definition ensemble_signal_data ::
  "string \<Rightarrow> Instrument \<Rightarrow> real \<Rightarrow> SignalType \<Rightarrow> (string \<times> Signal) list \<Rightarrow> real
     \<Rightarrow> Option_row \<Rightarrow> Signal" where
  "ensemble_signal_data indicator_name instrument cp t bucket confidence atm =
     (let target_prices = List.map_filter (\<lambda>(_, s). target_price s) bucket;
          stop_losses = List.map_filter (\<lambda>(_, s). stop_loss s) bucket;
          tp = (if target_prices \<noteq> []
                then sum_list target_prices / real (length target_prices)
                else fallback_target_price t cp);
          sl = (if stop_losses \<noteq> []
                then sum_list stop_losses / real (length stop_losses)
                else fallback_stop_loss t cp)
      in \<lparr> sig_instrument_id = inst_id instrument,
           signal_type = t,
           signal_source = ENSEMBLE,
           target_price = Some tp,
           stop_loss = Some sl,
           confidence_score = confidence,
           option_id = Some (opt_id atm),
           option_strike = Some (strike_price atm),
           option_expiration = Some (expiration_date atm),
           indicator = indicator_name,
           strategies = map fst bucket,
           strategy_count = length bucket \<rparr>)"

definition ensemble_bucket ::
  "((string \<times> Signal) list \<Rightarrow> real option) \<Rightarrow> string \<Rightarrow> signal_db \<Rightarrow> real \<Rightarrow> int
     \<Rightarrow> Instrument \<Rightarrow> real \<Rightarrow> SignalType \<Rightarrow> (string \<times> Signal) list \<Rightarrow> Signal list option" where
  "ensemble_bucket confidence_of indicator_name db min_confidence min_strategies
       instrument cp t bucket =
     (if int (length bucket) \<ge> min_strategies then
        (case confidence_of bucket of
           None \<Rightarrow> None
         | Some confidence \<Rightarrow>
             if confidence \<ge> min_confidence then
               (case find_atm_options db (inst_id instrument) cp (option_type_of t) of
                  None \<Rightarrow> None
                | Some atm \<Rightarrow>
                    (case save_signal db
                            (ensemble_signal_data indicator_name instrument cp t bucket
                               confidence atm) of
                       None \<Rightarrow> Some []
                     | Some signal \<Rightarrow> Some [signal]))
             else Some [])
      else Some [])"

definition ensemble_generate ::
  "((string \<times> Signal) list \<Rightarrow> real option) \<Rightarrow> string \<Rightarrow> signal_db \<Rightarrow> real \<Rightarrow> int
     \<Rightarrow> Instrument \<Rightarrow> (string \<times> strategy_run) list \<Rightarrow> Signal list" where
  "ensemble_generate confidence_of indicator_name db min_confidence min_strategies
       instrument runs =
     (case last_price instrument of
        None \<Rightarrow> []
      | Some cp \<Rightarrow>
          if cp = 0 then []
          else
            let strategy_signals = collect_strategy_signals runs;
                call_signals = signals_of_type LONG_CALL strategy_signals;
                put_signals = signals_of_type LONG_PUT strategy_signals
            in case ensemble_bucket confidence_of indicator_name db min_confidence
                      min_strategies instrument cp LONG_CALL call_signals of
                 None \<Rightarrow> []
               | Some calls \<Rightarrow>
                   (case ensemble_bucket confidence_of indicator_name db min_confidence
                           min_strategies instrument cp LONG_PUT put_signals of
                      None \<Rightarrow> calls
                    | Some puts \<Rightarrow> calls @ puts))"

text \<open>
  \<^verbatim>\<open>EnsembleStrategy.generate_signals\<close>; the arguments after the database are
  \<open>self.min_confidence\<close> and \<open>self.min_strategies\<close>, and \<open>runs\<close> is what each entry of
  \<open>self.strategies\<close> does on this instrument, in dictionary order.
\<close>

definition EnsembleStrategy_generate_signals ::
  "signal_db \<Rightarrow> real \<Rightarrow> int \<Rightarrow> Instrument \<Rightarrow> (string \<times> strategy_run) list \<Rightarrow> Signal list" where
  "EnsembleStrategy_generate_signals = ensemble_generate avg_confidence ''ensemble''"

definition WeightedEnsembleStrategy_generate_signals ::
  "signal_db \<Rightarrow> real \<Rightarrow> int \<Rightarrow> Instrument \<Rightarrow> (string \<times> strategy_run) list \<Rightarrow> Signal list" where
  "WeightedEnsembleStrategy_generate_signals =
     ensemble_generate (\<lambda>bucket. Some (calculate_weighted_confidence bucket)) ''weighted_ensemble''"

section \<open>Earnings strategy\<close>







section \<open>Example inputs\<close>


text \<open>
  The same portfolio with a 40\% per-stock allocation and the fundamental adjustment that
  \<^verbatim>\<open>calculate_fundamental_adjustment\<close> returns for a neutral fundamental score at
  confidence 0.85, \<open>1 + (1.0 + 0.85) / 2 = 1.925\<close>.
\<close>

definition sizing_db_adjusted :: sizing_db where
  "sizing_db_adjusted =
     \<lparr> risk_profile = Some \<lparr> max_portfolio_risk = 2, max_stock_allocation = 40 \<rparr>,
       portfolio_total_value = Some 100000, instrument_found = True,
       current_position_values = [], fundamental_adjustment_of = 1.925,
       correlation_adjustment_of = 1 \<rparr>"


definition position_example :: Position where
  "position_example =
     \<lparr> entry_price = 10, current_price = 10, stop_loss_price = Some 8, quantity = 4 \<rparr>"

text \<open>
  A position whose ledger already holds the releases of the 20\% and 35\% thresholds, and
  the same position with an empty ledger.
\<close>

definition risk_db_released :: risk_db where
  "risk_db_released =
     \<lparr> positions = [1 \<mapsto> \<lparr> entry_price = 10, current_price = 13.7,
                               stop_loss_price = Some 8, quantity = 4 \<rparr>],
       profit_takings =
         [\<lparr> ppt_position_id = 1, percentage_closed = 0.25, ppt_price = 12.2,
            profit_percentage = 0.22 \<rparr>,
          \<lparr> ppt_position_id = 1, percentage_closed = 0.25, ppt_price = 13.7,
            profit_percentage = 0.37 \<rparr>] \<rparr>"

definition risk_db_fresh :: risk_db where
  "risk_db_fresh = risk_db_released\<lparr> profit_takings := [] \<rparr>"

text \<open>
  An instrument priced at 200, an option table with one call and one put in the
  expiry window (and the same table without the call), a database whose commits
  succeed, and candidate signals as the constituent strategies return them.
\<close>

definition candidate :: "SignalType \<Rightarrow> SignalSource \<Rightarrow> real \<Rightarrow> Signal" where
  "candidate t src c =
     \<lparr> sig_instrument_id = 1, signal_type = t, signal_source = src,
       target_price = None, stop_loss = None, confidence_score = c,
       option_id = None, option_strike = None, option_expiration = None,
       indicator = ''candidate'', strategies = [], strategy_count = 0 \<rparr>"

definition instrument_example :: Instrument where
  "instrument_example =
     \<lparr> inst_id = 1, symbol = ''AAPL'', last_price = Some 200, next_earnings_date = None \<rparr>"

definition call_option_example :: Option_row where
  "call_option_example =
     \<lparr> opt_id = 10, opt_instrument_id = 1, expiration_date = 107, option_type = ''call'',
       strike_price = 200 \<rparr>"

definition put_option_example :: Option_row where
  "put_option_example =
     \<lparr> opt_id = 11, opt_instrument_id = 1, expiration_date = 106, option_type = ''put'',
       strike_price = 195 \<rparr>"

definition signal_db_example :: signal_db where
  "signal_db_example =
     \<lparr> options_table = [call_option_example, put_option_example], today = 100,
       save_succeeds = (\<lambda>_. True) \<rparr>"

definition signal_db_no_calls :: signal_db where
  "signal_db_no_calls =
     \<lparr> options_table = [put_option_example], today = 100, save_succeeds = (\<lambda>_. True) \<rparr>"

definition bucket_scenario_B :: "(string \<times> Signal) list" where
  "bucket_scenario_B =
     [(''rsi'', candidate LONG_CALL TECHNICAL 0.7), (''macd'', candidate LONG_CALL TECHNICAL 0.8)]"

definition runs_scenario_B :: "(string \<times> strategy_run) list" where
  "runs_scenario_B =
     [(''rsi'', Returns [candidate LONG_CALL TECHNICAL 0.7]),
      (''macd'', Returns [candidate LONG_CALL TECHNICAL 0.8]),
      (''bollinger'', Returns [])]"

definition runs_scenario_C :: "(string \<times> strategy_run) list" where
  "runs_scenario_C =
     [(''rsi'', Returns [candidate LONG_CALL TECHNICAL 0.9]), (''macd'', Returns [])]"

definition runs_puts_only :: "(string \<times> strategy_run) list" where
  "runs_puts_only =
     [(''valuation'', Returns [candidate LONG_PUT FUNDAMENTAL 0.8]),
      (''iv_skew'', Returns [candidate LONG_PUT VOLATILITY 0.9])]"

definition runs_both_directions :: "(string \<times> strategy_run) list" where
  "runs_both_directions = runs_scenario_B @ runs_puts_only"






text \<open>
  Buckets whose candidates all carry the double nearest to 0.7: three technical
  candidates, and the pair \<open>macd\<close> (technical) and \<open>valuation\<close> (fundamental).
\<close>

definition bucket_three_at_07 :: "(string \<times> Signal) list" where
  "bucket_three_at_07 =
     [(''rsi'', candidate LONG_CALL TECHNICAL (round_double 0.7)),
      (''macd'', candidate LONG_CALL TECHNICAL (round_double 0.7)),
      (''bollinger'', candidate LONG_CALL TECHNICAL (round_double 0.7))]"

definition bucket_two_at_07 :: "(string \<times> Signal) list" where
  "bucket_two_at_07 =
     [(''macd'', candidate LONG_CALL TECHNICAL (round_double 0.7)),
      (''valuation'', candidate LONG_CALL FUNDAMENTAL (round_double 0.7))]"

section \<open>Verified properties: position sizer\<close>

lemma calculate_position_size_success:
  assumes "risk_profile db = Some profile" "portfolio_total_value db = Some pv"
    "instrument_found db" "option_price \<noteq> 0"
    "0 < headroom profile pv (current_position_values db)"
  shows "\<exists>r. calculate_position_size db c option_price = Inr r
           \<and> contracts r \<ge> math_ceil (minimum_floor pv / (option_price * 100))"
  using assms
  by (simp add: calculate_position_size_def Let_def headroom_def minimum_floor_def
        split del: if_split)

lemma ceil_mult_ge:
  fixes a cv :: real
  assumes "0 < cv"
  shows "a \<le> real_of_int (math_ceil (a / cv)) * cv"
proof -
  have "a / cv \<le> real_of_int \<lceil>a / cv\<rceil>" by (rule le_of_int_ceiling)
  with assms have "a \<le> real_of_int \<lceil>a / cv\<rceil> * cv"
    using pos_divide_le_eq [of cv a "real_of_int \<lceil>a / cv\<rceil>"] by blast
  then show ?thesis by (simp add: math_ceil_def)
qed

lemma minimum_floor_pos: "0 < minimum_floor pv"
  by (simp add: minimum_floor_def max_def)

text \<open>
  C1. When the user, the portfolio and the instrument are found, the option price is
  positive (the request schema admits no other: \<^verbatim>\<open>option_price: float = Field(..., gt=0.0)\<close>),
  and the allocation headroom (\<open>max_stock_allocation\<close> percent of the
  portfolio value minus the current allocation to the instrument) is at least the minimum
  position floor \<open>max(33000, 33% of portfolio value)\<close>, the call succeeds with a non-zero
  contract count whose value \<open>contracts * contract_value\<close>, \<open>contract_value = option_price * 100\<close>,
  is at least that floor. The fundamental and correlation adjustments are arbitrary.
\<close>

theorem sizing_meets_minimum_floor:
  assumes "risk_profile db = Some profile" and "portfolio_total_value db = Some pv"
    and "instrument_found db" and "0 < option_price"
    and "minimum_floor pv \<le> headroom profile pv (current_position_values db)"
  shows "\<exists>r. calculate_position_size db signal_confidence option_price = Inr r
           \<and> contracts r \<noteq> 0
           \<and> minimum_floor pv \<le> real_of_int (contracts r) * (option_price * 100)"
proof -
  let ?cv = "option_price * 100"
  have cv: "0 < ?cv" using assms(4) by simp
  have hr: "0 < headroom profile pv (current_position_values db)"
    using assms(5) minimum_floor_pos [of pv] by linarith
  from calculate_position_size_success [OF assms(1-3) _ hr, of option_price signal_confidence] assms(4)
  obtain r where r: "calculate_position_size db signal_confidence option_price = Inr r"
    and ge: "math_ceil (minimum_floor pv / ?cv) \<le> contracts r" by auto
  have "minimum_floor pv \<le> real_of_int (math_ceil (minimum_floor pv / ?cv)) * ?cv"
    by (rule ceil_mult_ge [OF cv])
  also have "\<dots> \<le> real_of_int (contracts r) * ?cv"
    using ge cv by (simp add: mult_right_mono)
  finally have bound: "minimum_floor pv \<le> real_of_int (contracts r) * ?cv" .
  have "contracts r \<noteq> 0"
  proof
    assume "contracts r = 0"
    with bound have "minimum_floor pv \<le> 0" by simp
    with minimum_floor_pos [of pv] show False by linarith
  qed
  with r bound show ?thesis by blast
qed

theorem sizing_meets_minimum_floor_witness:
  "\<exists>r. calculate_position_size
          \<lparr> risk_profile = Some \<lparr> max_portfolio_risk = 2, max_stock_allocation = 40 \<rparr>,
            portfolio_total_value = Some 100000, instrument_found = True,
            current_position_values = [5000], fundamental_adjustment_of = 1,
            correlation_adjustment_of = 1 \<rparr> 0.85 2.5 = Inr r
       \<and> contracts r \<noteq> 0
       \<and> minimum_floor 100000 \<le> real_of_int (contracts r) * (2.5 * 100)"
  by (rule sizing_meets_minimum_floor
        [where profile = "\<lparr> max_portfolio_risk = 2, max_stock_allocation = 40 \<rparr>"])
     (simp_all add: minimum_floor_def headroom_def)




text \<open>
  C3 (the code departs from the claim). The headroom clamp runs before the fundamental
  and correlation adjustments and nothing is clamped afterwards: with \$40,000 of headroom
  (above the \$33,000 floor) the call returns 254 contracts worth \$63,500.
\<close>

theorem adjusted_size_exceeds_headroom:
  "(case calculate_position_size sizing_db_adjusted 0.85 2.5 of
      Inl e \<Rightarrow> False
    | Inr r \<Rightarrow> contracts r = 254 \<and> available_allocation r = 40000
             \<and> min_position_size r \<le> available_allocation r
             \<and> real_of_int (contracts r) * contract_value r = 63500
             \<and> real_of_int (contracts r) * contract_value r > available_allocation r)"
  by code_simp

section \<open>Verified properties: exit planner\<close>

lemma dynamic_take_profit_stops:
  "\<exists>r. calculate_dynamic_take_profit (Some (position\<lparr>current_price := c\<rparr>)) pct = Inr r
     \<and> initial_stop_loss r =
         (case stop_loss_price position of
            None \<Rightarrow> entry_price position * 0.8
          | Some sl \<Rightarrow> if sl = 0 then entry_price position * 0.8 else sl)
     \<and> adjusted_stop_loss r =
         max (initial_stop_loss r)
           (if pct > 0.30 then entry_price position + (c - entry_price position) * 0.5
            else if pct > 0.15 then entry_price position + (c - entry_price position) * 0.25
            else initial_stop_loss r)"
  by (cases "stop_loss_price position")
     (simp_all add: calculate_dynamic_take_profit_def Let_def)

lemma trailing_step:
  fixes e c1 c2 i pct1 pct2 :: real
  assumes "c1 \<le> c2" and "pct1 \<le> pct2" and "0 < pct2 \<longrightarrow> e \<le> c2"
  defines "t1 \<equiv> (if pct1 > 0.30 then e + (c1 - e) * 0.5
                   else if pct1 > 0.15 then e + (c1 - e) * 0.25 else i)"
    and "t2 \<equiv> (if pct2 > 0.30 then e + (c2 - e) * 0.5
                else if pct2 > 0.15 then e + (c2 - e) * 0.25 else i)"
  shows "max i t1 \<le> max i t2"
proof -
  have "t1 \<le> t2 \<or> t1 \<le> i"
    using assms(1-3) unfolding t1_def t2_def by (auto split: if_splits)
  then show ?thesis by (auto simp add: max_def)
qed

text \<open>
  C5. For a fixed position (entry price and stored stop-loss unchanged), an evaluation at
  current price \<open>c1\<close> and profit percentage \<open>pct1\<close> followed by one at \<open>c2 \<ge> c1\<close> and
  \<open>pct2 \<ge> pct1\<close> never lowers the adjusted stop-loss; the initial stop is the same in both
  and the adjusted stop is never below it. The profit percentage is an argument of its own
  in the code; it is taken to agree with the price in sign: a position shown in profit is
  priced at or above its entry.
\<close>

theorem trailing_stop_never_decreases:
  assumes "c1 \<le> c2" and "pct1 \<le> pct2"
    and "0 < pct2 \<longrightarrow> entry_price position \<le> c2"
  shows "\<exists>r1 r2.
           calculate_dynamic_take_profit (Some (position\<lparr>current_price := c1\<rparr>)) pct1 = Inr r1
         \<and> calculate_dynamic_take_profit (Some (position\<lparr>current_price := c2\<rparr>)) pct2 = Inr r2
         \<and> initial_stop_loss r1 = initial_stop_loss r2
         \<and> initial_stop_loss r2 \<le> adjusted_stop_loss r2
         \<and> adjusted_stop_loss r1 \<le> adjusted_stop_loss r2"
proof -
  obtain r1 where r1: "calculate_dynamic_take_profit (Some (position\<lparr>current_price := c1\<rparr>)) pct1 = Inr r1"
    and i1: "initial_stop_loss r1 =
         (case stop_loss_price position of
            None \<Rightarrow> entry_price position * 0.8
          | Some sl \<Rightarrow> if sl = 0 then entry_price position * 0.8 else sl)"
    and a1: "adjusted_stop_loss r1 =
         max (initial_stop_loss r1)
           (if pct1 > 0.30 then entry_price position + (c1 - entry_price position) * 0.5
            else if pct1 > 0.15 then entry_price position + (c1 - entry_price position) * 0.25
            else initial_stop_loss r1)"
    using dynamic_take_profit_stops [where position = position and c = c1 and pct = pct1]
    by blast
  obtain r2 where r2: "calculate_dynamic_take_profit (Some (position\<lparr>current_price := c2\<rparr>)) pct2 = Inr r2"
    and i2: "initial_stop_loss r2 =
         (case stop_loss_price position of
            None \<Rightarrow> entry_price position * 0.8
          | Some sl \<Rightarrow> if sl = 0 then entry_price position * 0.8 else sl)"
    and a2: "adjusted_stop_loss r2 =
         max (initial_stop_loss r2)
           (if pct2 > 0.30 then entry_price position + (c2 - entry_price position) * 0.5
            else if pct2 > 0.15 then entry_price position + (c2 - entry_price position) * 0.25
            else initial_stop_loss r2)"
    using dynamic_take_profit_stops [where position = position and c = c2 and pct = pct2]
    by blast
  have same: "initial_stop_loss r1 = initial_stop_loss r2" using i1 i2 by simp
  have "adjusted_stop_loss r1 \<le> adjusted_stop_loss r2"
    unfolding a1 a2 same
    by (rule trailing_step [OF assms])
  moreover have "initial_stop_loss r2 \<le> adjusted_stop_loss r2"
    unfolding a2 by simp
  ultimately show ?thesis using r1 r2 same by blast
qed

theorem trailing_stop_never_decreases_witness:
  "(12::real) \<le> 14 \<and> (0.2::real) \<le> 0.4
   \<and> entry_price position_example \<le> 14
   \<and> (\<exists>r1 r2.
           calculate_dynamic_take_profit (Some (position_example\<lparr>current_price := 12\<rparr>)) 0.2 = Inr r1
         \<and> calculate_dynamic_take_profit (Some (position_example\<lparr>current_price := 14\<rparr>)) 0.4 = Inr r2
         \<and> initial_stop_loss r1 = initial_stop_loss r2
         \<and> initial_stop_loss r2 \<le> adjusted_stop_loss r2
         \<and> adjusted_stop_loss r1 \<le> adjusted_stop_loss r2)"
proof -
  have e: "entry_price position_example \<le> 14"
    by (simp add: position_example_def)
  have h: "(12::real) \<le> 14" "(0.2::real) \<le> 0.4"
    "0 < (0.4::real) \<longrightarrow> entry_price position_example \<le> 14"
    using e by simp_all
  from trailing_stop_never_decreases [OF h] h e show ?thesis by blast
qed

subsection \<open>Partial profit taking\<close>

lemma first_triggered_bound:
  "first_triggered ths p taken = Some (amount, th) \<Longrightarrow> 0 < amount \<and> taken + amount \<le> 1"
  by (induction ths) (auto simp add: Let_def split: if_splits)

lemma first_triggered_released:
  "(\<forall>th\<in>set ths. fst th \<le> p \<longrightarrow> target_total_pct th \<le> taken)
     \<Longrightarrow> first_triggered ths p taken = None"
  by (induction ths) (auto simp add: Let_def)

lemma total_pct_taken_append:
  "total_pct_taken (db\<lparr>profit_takings := profit_takings db @ [row]\<rparr>) pid =
     total_pct_taken db pid + (if ppt_position_id row = pid then percentage_closed row else 0)"
  by (simp add: total_pct_taken_def)

lemma implement_keeps_bound:
  assumes "total_pct_taken db pid \<le> 1"
  shows "total_pct_taken (snd (implement_partial_profit_taking db pid' p)) pid \<le> 1"
proof (cases "positions db pid'")
  case None
  with assms show ?thesis by (simp add: implement_partial_profit_taking_def)
next
  case (Some position)
  show ?thesis
  proof (cases "first_triggered thresholds p (total_pct_taken db pid')")
    case None
    with Some assms show ?thesis by (simp add: implement_partial_profit_taking_def)
  next
    case (Some hit)
    obtain amount th where hit: "hit = (amount, th)" by (cases hit)
    from first_triggered_bound [OF Some [unfolded hit]]
    have "total_pct_taken db pid' + amount \<le> 1" by simp
    with \<open>positions db pid' = Some position\<close> Some hit assms show ?thesis
      by (auto simp add: implement_partial_profit_taking_def total_pct_taken_append)
  qed
qed

lemma calls_keep_bound:
  "total_pct_taken db pid \<le> 1
     \<Longrightarrow> total_pct_taken (profit_taking_calls db pid profits) pid \<le> 1"
  unfolding profit_taking_calls_def
  by (induction profits arbitrary: db) (simp_all add: implement_keeps_bound)

text \<open>
  Scenario D of the specification: 22\% releases 25\%, 37\% releases another 25\%, and the
  retrace to 22\% releases nothing.
\<close>

lemma scenario_D:
  "map percentage_closed
     (profit_takings (profit_taking_calls risk_db_fresh 1 [0.22, 0.37, 0.22])) = [0.25, 0.25]"
  by code_simp

text \<open>
  C4. Starting from a ledger whose cumulative \<open>percentage_closed\<close> for the position is at
  most 1, any sequence of \<^verbatim>\<open>implement_partial_profit_taking\<close> calls, at arbitrary profit
  percentages, leaves the cumulative sum at most 1. And a call for an existing position at
  a profit level all of whose reached thresholds are already released (the ledger total is
  at least the cumulative target of every threshold at or below the level) returns the
  hold action and leaves the database as it was.
\<close>

theorem partial_profit_ledger_bounded:
  assumes "total_pct_taken db pid \<le> 1"
  shows "total_pct_taken (profit_taking_calls db pid profits) pid \<le> 1
       \<and> (positions db pid \<noteq> None
            \<and> (\<forall>th\<in>set thresholds.
                  fst th \<le> p \<longrightarrow> target_total_pct th \<le> total_pct_taken db pid)
          \<longrightarrow> implement_partial_profit_taking db pid p
                = (Inr (Hold (total_pct_taken db pid)), db))"
proof -
  have "implement_partial_profit_taking db pid p = (Inr (Hold (total_pct_taken db pid)), db)"
    if "positions db pid \<noteq> None"
      and "\<forall>th\<in>set thresholds. fst th \<le> p \<longrightarrow> target_total_pct th \<le> total_pct_taken db pid"
    using that first_triggered_released [of thresholds p "total_pct_taken db pid"]
    by (auto simp add: implement_partial_profit_taking_def)
  with calls_keep_bound [OF assms] show ?thesis by blast
qed

theorem partial_profit_ledger_bounded_witness:
  "total_pct_taken risk_db_released 1 \<le> 1
   \<and> total_pct_taken (profit_taking_calls risk_db_released 1 [0.22, 0.55]) 1 \<le> 1
   \<and> implement_partial_profit_taking risk_db_released 1 0.37 =
       (Inr (Hold (total_pct_taken risk_db_released 1)), risk_db_released)"
proof -
  have a: "total_pct_taken risk_db_released 1 \<le> 1"
    by (simp add: total_pct_taken_def risk_db_released_def)
  have b: "positions risk_db_released 1 \<noteq> None"
    by (simp add: risk_db_released_def)
  have c: "\<forall>th\<in>set thresholds. fst th \<le> 0.37
             \<longrightarrow> target_total_pct th \<le> total_pct_taken risk_db_released 1"
    by (simp add: thresholds_def target_total_pct_def total_pct_taken_def risk_db_released_def)
  from partial_profit_ledger_bounded [OF a, where profits = "[0.22, 0.55]" and p = "0.37"] a b c
  show ?thesis by blast
qed

section \<open>Verified properties: ensemble aggregator\<close>

lemma strategy_weight_pos: "0 < dict_get strategy_weights name 0.5"
  by (simp add: dict_get_def strategy_weights_def)

lemma source_weight_nonneg: "0 \<le> dict_get source_weights src 0.5"
  by (cases src) (simp_all add: dict_get_def source_weights_def)

lemma combined_weight_pos: "0 < combined_weight name s"
  using strategy_weight_pos [of name] source_weight_nonneg [of "signal_source s"]
  by (simp add: combined_weight_def)

lemma weighted_totals_sums:
  "weighted_totals bucket tw ws =
     (tw + sum_list (map (\<lambda>(n, s). combined_weight n s) bucket),
      ws + sum_list (map (\<lambda>(n, s). confidence_score s * combined_weight n s) bucket))"
  by (induction bucket arbitrary: tw ws) (auto simp add: algebra_simps)

lemma total_weight_pos:
  "bucket \<noteq> [] \<Longrightarrow> 0 < sum_list (map (\<lambda>(n, s). combined_weight n s) bucket)"
proof (induction bucket)
  case Nil
  then show ?case by simp
next
  case (Cons x xs)
  obtain n s where x: "x = (n, s)" by (cases x)
  have "0 \<le> sum_list (map (\<lambda>(n, s). combined_weight n s) xs)"
    by (rule sum_list_nonneg) (auto simp add: less_imp_le combined_weight_pos)
  with combined_weight_pos [of n s] x show ?case by simp
qed

lemma weighted_sum_bounds:
  assumes "\<forall>(n, s)\<in>set bucket. lo \<le> confidence_score s \<and> confidence_score s \<le> hi"
  shows "lo * sum_list (map (\<lambda>(n, s). combined_weight n s) bucket)
           \<le> sum_list (map (\<lambda>(n, s). confidence_score s * combined_weight n s) bucket)
       \<and> sum_list (map (\<lambda>(n, s). confidence_score s * combined_weight n s) bucket)
           \<le> hi * sum_list (map (\<lambda>(n, s). combined_weight n s) bucket)"
  using assms
proof (induction bucket)
  case Nil
  then show ?case by simp
next
  case (Cons x xs)
  obtain n s where x: "x = (n, s)" by (cases x)
  from Cons.prems x have cs: "lo \<le> confidence_score s" "confidence_score s \<le> hi" by auto
  have w: "0 < combined_weight n s" by (rule combined_weight_pos)
  from cs w have "lo * combined_weight n s \<le> confidence_score s * combined_weight n s"
    and "confidence_score s * combined_weight n s \<le> hi * combined_weight n s"
    by (simp_all add: mult_right_mono)
  moreover from Cons have "lo * sum_list (map (\<lambda>(n, s). combined_weight n s) xs)
           \<le> sum_list (map (\<lambda>(n, s). confidence_score s * combined_weight n s) xs)
       \<and> sum_list (map (\<lambda>(n, s). confidence_score s * combined_weight n s) xs)
           \<le> hi * sum_list (map (\<lambda>(n, s). combined_weight n s) xs)" by simp
  ultimately show ?case using x by (simp add: algebra_simps)
qed

lemma sum_bounds:
  assumes "\<forall>(n, s)\<in>set bucket. lo \<le> confidence_score s \<and> confidence_score s \<le> hi"
  shows "lo * real (length bucket) \<le> sum_list (map (\<lambda>(_, s). confidence_score s) bucket)
       \<and> sum_list (map (\<lambda>(_, s). confidence_score s) bucket) \<le> hi * real (length bucket)"
  using assms by (induction bucket) (auto simp add: algebra_simps)

lemma weighted_confidence_between:
  assumes "bucket \<noteq> []"
    and "\<forall>(n, s)\<in>set bucket. lo \<le> confidence_score s \<and> confidence_score s \<le> hi"
  shows "lo \<le> calculate_weighted_confidence bucket \<and> calculate_weighted_confidence bucket \<le> hi"
proof -
  let ?W = "sum_list (map (\<lambda>(n, s). combined_weight n s) bucket)"
  let ?S = "sum_list (map (\<lambda>(n, s). confidence_score s * combined_weight n s) bucket)"
  have W: "0 < ?W" by (rule total_weight_pos [OF assms(1)])
  have eq: "calculate_weighted_confidence bucket = ?S / ?W"
    using assms(1) W by (simp add: calculate_weighted_confidence_def weighted_totals_sums)
  from weighted_sum_bounds [OF assms(2)] have "lo * ?W \<le> ?S" "?S \<le> hi * ?W" by simp_all
  with W show ?thesis unfolding eq by (simp add: pos_le_divide_eq pos_divide_le_eq)
qed

lemma avg_confidence_between:
  assumes "bucket \<noteq> []"
    and "\<forall>(n, s)\<in>set bucket. lo \<le> confidence_score s \<and> confidence_score s \<le> hi"
  shows "\<exists>c. avg_confidence bucket = Some c \<and> lo \<le> c \<and> c \<le> hi"
proof -
  have L: "0 < real (length bucket)" using assms(1) by simp
  from sum_bounds [OF assms(2)] L show ?thesis
    using assms(1) by (simp add: avg_confidence_def pos_le_divide_eq pos_divide_le_eq)
qed

text \<open>
  In exact arithmetic both means are convex combinations of the candidates' confidence
  scores: every combined weight \<open>(strategy_weight + source_weight) / 2\<close> is positive.
\<close>

lemma exact_confidence_between_min_and_max:
  assumes "bucket \<noteq> []"
  shows "(\<exists>c. avg_confidence bucket = Some c
            \<and> Min ((\<lambda>(_, s). confidence_score s) ` set bucket) \<le> c
            \<and> c \<le> Max ((\<lambda>(_, s). confidence_score s) ` set bucket))
       \<and> Min ((\<lambda>(_, s). confidence_score s) ` set bucket) \<le> calculate_weighted_confidence bucket
       \<and> calculate_weighted_confidence bucket \<le> Max ((\<lambda>(_, s). confidence_score s) ` set bucket)"
proof -
  let ?C = "(\<lambda>(_, s). confidence_score s) ` set bucket"
  have fin: "finite ?C" by simp
  have b: "\<forall>(n, s)\<in>set bucket. Min ?C \<le> confidence_score s \<and> confidence_score s \<le> Max ?C"
  proof (clarify)
    fix n s assume "(n, s) \<in> set bucket"
    then have "confidence_score s \<in> ?C" by force
    with fin show "Min ?C \<le> confidence_score s \<and> confidence_score s \<le> Max ?C" by simp
  qed
  from avg_confidence_between [OF assms b] weighted_confidence_between [OF assms b]
  show ?thesis by blast
qed

subsection \<open>The combined confidence as the code computes it\<close>

lemma round_half_even_error: "\<bar>real_of_int (round_half_even y) - y\<bar> \<le> 1 / 2"
proof -
  have "real_of_int \<lfloor>y\<rfloor> \<le> y" "y < real_of_int \<lfloor>y\<rfloor> + 1" by linarith+
  then show ?thesis
    by (auto simp add: round_half_even_def Let_def)
qed

lemma bitlen_pos: "0 < n \<Longrightarrow> 1 \<le> bitlen n"
  using bitlen_bounds [of n] bitlen_nonneg [of n]
  by (cases "bitlen n = 0") auto

lemma binary_exponent_bounds:
  assumes "0 < x"
  shows "power_int 2 (binary_exponent x) \<le> x \<and> x < power_int 2 (binary_exponent x + 1)"
proof (cases "1 \<le> x")
  case True
  define n where "n = \<lfloor>x\<rfloor>"
  have n: "0 < n" using True by (simp add: n_def)
  have nx: "real_of_int n \<le> x" "x < real_of_int n + 1" unfolding n_def by linarith+
  from bitlen_pos [OF n] have b1: "1 \<le> bitlen n" .
  from bitlen_bounds [OF n] have lo: "2 ^ nat (bitlen n - 1) \<le> n" and hi: "n < 2 ^ nat (bitlen n)"
    by simp_all
  have e: "binary_exponent x = bitlen n - 1" using True by (simp add: binary_exponent_def n_def)
  have p1: "power_int (2::real) (bitlen n - 1) = 2 ^ nat (bitlen n - 1)"
    using b1 by (simp add: power_int_def)
  have p2: "power_int (2::real) (bitlen n - 1 + 1) = 2 ^ nat (bitlen n)"
    using b1 by (simp add: power_int_def)
  from lo have "real_of_int (2 ^ nat (bitlen n - 1)) \<le> real_of_int n" by (simp only: of_int_le_iff)
  then have "(2::real) ^ nat (bitlen n - 1) \<le> real_of_int n"
    by (simp only: of_int_power of_int_numeral)
  with nx have l: "(2::real) ^ nat (bitlen n - 1) \<le> x" by linarith
  from hi have "n + 1 \<le> 2 ^ nat (bitlen n)" by simp
  then have "real_of_int (n + 1) \<le> real_of_int (2 ^ nat (bitlen n))" by (simp only: of_int_le_iff)
  then have "real_of_int n + 1 \<le> (2::real) ^ nat (bitlen n)"
    by (simp only: of_int_power of_int_numeral of_int_add of_int_1)
  with nx have h: "x < (2::real) ^ nat (bitlen n)" by linarith
  show ?thesis unfolding e p1 p2 using l h by simp
next
  case False
  with assms have x: "0 < x" "x < 1" by simp_all
  define n where "n = \<lfloor>1 / x\<rfloor>"
  define k where "k = bitlen n - 1"
  define P :: real where "P = 2 ^ nat k"
  have y1: "1 < 1 / x" using x by simp
  have n: "0 < n" using y1 by (simp add: n_def)
  have ny: "real_of_int n \<le> 1 / x" "1 / x < real_of_int n + 1" unfolding n_def by linarith+
  from bitlen_pos [OF n] have k0: "0 \<le> k" by (simp add: k_def)
  from bitlen_bounds [OF n] have lo: "2 ^ nat k \<le> n" and hi: "n < 2 ^ nat (k + 1)"
    by (simp_all add: k_def)
  have P0: "0 < P" by (simp add: P_def)
  from lo have "real_of_int (2 ^ nat k) \<le> real_of_int n" by (simp only: of_int_le_iff)
  then have "P \<le> real_of_int n"
    unfolding P_def by (simp only: of_int_power of_int_numeral)
  with ny have "P \<le> 1 / x" by linarith
  then have xP: "x * P \<le> 1" using x by (simp add: field_simps)
  from hi have "n + 1 \<le> 2 ^ nat (k + 1)" by simp
  then have "real_of_int (n + 1) \<le> real_of_int (2 ^ nat (k + 1))" by (simp only: of_int_le_iff)
  then have "real_of_int n + 1 \<le> (2::real) ^ nat (k + 1)"
    by (simp only: of_int_power of_int_numeral of_int_add of_int_1)
  with ny have "1 / x < 2 ^ nat (k + 1)" by linarith
  moreover have "(2::real) ^ nat (k + 1) = 2 * P" using k0 by (simp add: P_def nat_add_distrib)
  ultimately have "1 / x < 2 * P" by simp
  then have xP2: "1 < 2 * P * x" using x by (simp add: field_simps)
  have pk: "power_int (2::real) k = P" using k0 by (simp add: power_int_def P_def)
  have pmk: "power_int (2::real) (- k) = 1 / P" by (simp add: power_int_minus_divide pk)
  have pmk1: "power_int (2::real) (- k + 1) = 2 / P"
    using power_int_add_1 [of "2::real" "- k"] pmk by simp
  have pmk2: "power_int (2::real) (- k - 1) = 1 / (2 * P)"
  proof -
    have "power_int (2::real) (- k - 1 + 1) = power_int 2 (- k - 1) * 2"
      by (rule power_int_add_1) simp
    then have "1 / P = power_int 2 (- k - 1) * 2" using pmk by simp
    then show ?thesis by (simp add: field_simps)
  qed
  show ?thesis
  proof (cases "x * P = 1")
    case True
    then have e: "binary_exponent x = - k"
      using False by (simp add: binary_exponent_def Let_def n_def [symmetric] k_def [symmetric] pk)
    from True P0 have "x = 1 / P" by (simp add: field_simps)
    then show ?thesis unfolding e pmk pmk1 using P0 by (simp add: divide_strict_right_mono)
  next
    case ne: False
    then have e: "binary_exponent x = - k - 1"
      using False by (simp add: binary_exponent_def Let_def n_def [symmetric] k_def [symmetric] pk)
    from ne xP have lt: "x * P < 1" by simp
    have "1 / (2 * P) < x" using xP2 P0 by (simp add: field_simps)
    moreover have "x < 1 / P" using lt P0 by (simp add: field_simps)
    ultimately show ?thesis unfolding e using pmk2 pmk by simp
  qed
qed

lemma round_double_error:
  assumes "0 \<le> x"
  shows "(1 - unit_roundoff) * x \<le> round_double x \<and> round_double x \<le> (1 + unit_roundoff) * x"
proof (cases "x = 0")
  case True
  then show ?thesis by (simp add: round_double_def)
next
  case False
  with assms have x: "0 < x" by simp
  define e where "e = binary_exponent x"
  define q :: real where "q = power_int 2 (e - 52)"
  define r where "r = round_half_even (x / q)"
  have q0: "0 < q" by (simp add: q_def)
  have rd: "round_double x = real_of_int r * q"
    using x by (simp add: round_double_def Let_def q_def e_def r_def)
  from binary_exponent_bounds [OF x] have lo: "power_int 2 e \<le> x" by (simp add: e_def)
  have qe: "q = power_int 2 e / 2 ^ 52"
    unfolding q_def using power_int_diff [of "2::real" e 52] by simp
  from round_half_even_error [of "x / q"] have "\<bar>real_of_int r - x / q\<bar> \<le> 1 / 2"
    by (simp add: r_def)
  then have "\<bar>real_of_int r - x / q\<bar> * q \<le> 1 / 2 * q"
    using q0 by (simp only: mult_le_cancel_right_pos)
  moreover have "\<bar>real_of_int r - x / q\<bar> * q = \<bar>real_of_int r * q - x\<bar>"
    using q0 by (simp add: abs_mult_pos [symmetric] field_simps)
  ultimately have err: "\<bar>real_of_int r * q - x\<bar> \<le> q / 2" by simp
  have "q / 2 = power_int 2 e * unit_roundoff" by (simp add: qe unit_roundoff_def)
  also have "\<dots> \<le> x * unit_roundoff"
    using lo by (simp add: unit_roundoff_def)
  finally have "q / 2 \<le> x * unit_roundoff" .
  with err have "\<bar>round_double x - x\<bar> \<le> x * unit_roundoff" unfolding rd by linarith
  then show ?thesis by (simp add: algebra_simps abs_le_iff)
qed

text \<open>
  C6 (as stated, refuted). In binary64 arithmetic the combined confidence can leave the
  interval: three candidates at 0.7 average to 0.6999999999999998, and \<open>macd\<close> and
  \<open>valuation\<close> both at 0.7 have the weighted mean 0.6999999999999998, each one unit in the
  last place below the least contributing score.
\<close>

theorem combined_confidence_rounds_below_min:
  "(case avg_confidence_double bucket_three_at_07 of
      None \<Rightarrow> False
    | Some c \<Rightarrow> c < Min ((\<lambda>(_, s). confidence_score s) ` set bucket_three_at_07))
   \<and> calculate_weighted_confidence_double bucket_two_at_07
       < Min ((\<lambda>(_, s). confidence_score s) ` set bucket_two_at_07)"
  by code_simp

lemma unit_roundoff_bounds: "0 < unit_roundoff" "unit_roundoff < 1"
  by (simp_all add: unit_roundoff_def)

lemma round_double_nonneg: "0 \<le> x \<Longrightarrow> 0 \<le> round_double x"
proof -
  assume x: "0 \<le> x"
  from round_double_error [OF x] have "(1 - unit_roundoff) * x \<le> round_double x" by simp
  moreover have "0 \<le> (1 - unit_roundoff) * x" using x unit_roundoff_bounds by simp
  ultimately show ?thesis by linarith
qed

lemma round_double_pos: "0 < x \<Longrightarrow> 0 < round_double x"
proof -
  assume x: "0 < x"
  then have "0 \<le> x" by simp
  from round_double_error [OF this] have "(1 - unit_roundoff) * x \<le> round_double x" by simp
  moreover have "0 < (1 - unit_roundoff) * x" using x unit_roundoff_bounds by simp
  ultimately show ?thesis by linarith
qed

lemma foldl_double_add_bounds:
  assumes "0 \<le> a" and "\<forall>x\<in>set xs. 0 \<le> x"
  shows "0 \<le> foldl double_add a xs
       \<and> (1 - unit_roundoff) ^ length xs * (a + sum_list xs) \<le> foldl double_add a xs
       \<and> foldl double_add a xs \<le> (1 + unit_roundoff) ^ length xs * (a + sum_list xs)"
  using assms
proof (induction xs arbitrary: a)
  case Nil
  then show ?case by simp
next
  case (Cons x xs)
  let ?u = unit_roundoff
  let ?b = "double_add a x"
  from Cons.prems have ax: "0 \<le> a + x" and xs: "\<forall>y\<in>set xs. 0 \<le> y" and x0: "0 \<le> x" by simp_all
  have S: "0 \<le> sum_list xs" using xs by (simp add: sum_list_nonneg)
  from round_double_error [OF ax]
  have b_lo: "(1 - ?u) * (a + x) \<le> ?b" and b_hi: "?b \<le> (1 + ?u) * (a + x)"
    by (simp_all add: double_add_def)
  have b0: "0 \<le> ?b" using round_double_nonneg [OF ax] by (simp add: double_add_def)
  from Cons.IH [OF b0 xs]
  have IH0: "0 \<le> foldl double_add ?b xs"
    and IHlo: "(1 - ?u) ^ length xs * (?b + sum_list xs) \<le> foldl double_add ?b xs"
    and IHhi: "foldl double_add ?b xs \<le> (1 + ?u) ^ length xs * (?b + sum_list xs)"
    by simp_all
  have p_lo: "0 \<le> (1 - ?u) ^ length xs" and p_hi: "0 \<le> (1 + ?u) ^ length xs"
    using unit_roundoff_bounds by simp_all
  have "(1 - ?u) * (a + x + sum_list xs) \<le> ?b + sum_list xs"
  proof -
    have "(1 - ?u) * sum_list xs \<le> sum_list xs"
      using S unit_roundoff_bounds by (simp add: mult_left_le_one_le)
    with b_lo show ?thesis by (simp add: algebra_simps)
  qed
  then have "(1 - ?u) ^ length xs * ((1 - ?u) * (a + x + sum_list xs))
               \<le> (1 - ?u) ^ length xs * (?b + sum_list xs)"
    using p_lo by (rule mult_left_mono)
  with IHlo have lo: "(1 - ?u) ^ length (x # xs) * (a + sum_list (x # xs))
                        \<le> foldl double_add a (x # xs)"
    by (simp add: algebra_simps)
  have "?b + sum_list xs \<le> (1 + ?u) * (a + x + sum_list xs)"
  proof -
    have "sum_list xs \<le> (1 + ?u) * sum_list xs"
      using S unit_roundoff_bounds by (simp add: algebra_simps)
    with b_hi show ?thesis by (simp add: algebra_simps)
  qed
  then have "(1 + ?u) ^ length xs * (?b + sum_list xs)
               \<le> (1 + ?u) ^ length xs * ((1 + ?u) * (a + x + sum_list xs))"
    using p_hi by (rule mult_left_mono)
  with IHhi have hi: "foldl double_add a (x # xs)
                        \<le> (1 + ?u) ^ length (x # xs) * (a + sum_list (x # xs))"
    by (simp add: algebra_simps)
  from IH0 lo hi show ?case by simp
qed

lemma dict_get_rounded_pos:
  assumes "0 < dict_get d k dflt"
  shows "0 < dict_get (map_option round_double \<circ> d) k dflt"
  using assms by (cases "d k") (simp_all add: dict_get_def round_double_pos)

lemma dict_get_rounded_nonneg:
  assumes "0 \<le> dict_get d k dflt"
  shows "0 \<le> dict_get (map_option round_double \<circ> d) k dflt"
  using assms by (cases "d k") (simp_all add: dict_get_def round_double_nonneg)

lemma combined_weight_double_pos: "0 < combined_weight_double name s"
proof -
  have "0 < dict_get (map_option round_double \<circ> strategy_weights) name 0.5"
    by (rule dict_get_rounded_pos [OF strategy_weight_pos])
  moreover have "0 \<le> dict_get (map_option round_double \<circ> source_weights) (signal_source s) 0.5"
    by (rule dict_get_rounded_nonneg [OF source_weight_nonneg])
  ultimately have "0 < dict_get (map_option round_double \<circ> strategy_weights) name 0.5
                     + dict_get (map_option round_double \<circ> source_weights) (signal_source s) 0.5"
    by linarith
  then have "0 < double_add (dict_get (map_option round_double \<circ> strategy_weights) name 0.5)
                   (dict_get (map_option round_double \<circ> source_weights) (signal_source s) 0.5)"
    unfolding double_add_def by (rule round_double_pos)
  then show ?thesis
    unfolding combined_weight_double_def double_div_def
    by (intro round_double_pos) simp
qed

lemma avg_confidence_double_bounds:
  assumes ne: "bucket \<noteq> []"
    and b: "\<forall>(n, s)\<in>set bucket. lo \<le> confidence_score s \<and> confidence_score s \<le> hi"
    and lo: "0 \<le> lo"
  shows "\<exists>c. avg_confidence_double bucket = Some c
           \<and> lo * (1 - unit_roundoff) ^ (length bucket + 1) \<le> c
           \<and> c \<le> hi * (1 + unit_roundoff) ^ (length bucket + 1)"
proof -
  let ?u = unit_roundoff
  let ?cs = "map (\<lambda>(_, s). confidence_score s) bucket"
  let ?n = "length bucket"
  let ?S = "py_sum_double ?cs"
  have n: "0 < real ?n" using ne by simp
  have nonneg: "\<forall>x\<in>set ?cs. 0 \<le> x" using b lo by force
  from foldl_double_add_bounds [OF _ nonneg, of 0]
  have S0: "0 \<le> ?S" and Slo: "(1 - ?u) ^ ?n * sum_list ?cs \<le> ?S"
    and Shi: "?S \<le> (1 + ?u) ^ ?n * sum_list ?cs"
    by (simp_all add: py_sum_double_def)
  from sum_bounds [OF b] have sl: "lo * real ?n \<le> sum_list ?cs" and sh: "sum_list ?cs \<le> hi * real ?n"
    by simp_all
  have p_lo: "0 \<le> (1 - ?u) ^ ?n" and p_hi: "0 \<le> (1 + ?u) ^ ?n"
    using unit_roundoff_bounds by simp_all
  have q0: "0 \<le> ?S / real ?n" using S0 by simp
  from round_double_error [OF q0]
  have rlo: "(1 - ?u) * (?S / real ?n) \<le> double_div ?S (real ?n)"
    and rhi: "double_div ?S (real ?n) \<le> (1 + ?u) * (?S / real ?n)"
    by (simp_all add: double_div_def)
  have "(1 - ?u) ^ ?n * (lo * real ?n) \<le> (1 - ?u) ^ ?n * sum_list ?cs"
    using sl p_lo by (rule mult_left_mono)
  with Slo have "(1 - ?u) ^ ?n * (lo * real ?n) \<le> ?S" by linarith
  then have "(1 - ?u) ^ ?n * lo \<le> ?S / real ?n"
    using n by (simp add: pos_le_divide_eq algebra_simps)
  then have "(1 - ?u) * ((1 - ?u) ^ ?n * lo) \<le> (1 - ?u) * (?S / real ?n)"
    using unit_roundoff_bounds by (intro mult_left_mono) simp_all
  with rlo have A: "lo * (1 - ?u) ^ (?n + 1) \<le> double_div ?S (real ?n)"
    by (simp add: algebra_simps)
  have "(1 + ?u) ^ ?n * sum_list ?cs \<le> (1 + ?u) ^ ?n * (hi * real ?n)"
    using sh p_hi by (rule mult_left_mono)
  with Shi have "?S \<le> (1 + ?u) ^ ?n * (hi * real ?n)" by linarith
  then have "?S / real ?n \<le> (1 + ?u) ^ ?n * hi"
    using n by (simp add: pos_divide_le_eq algebra_simps)
  then have "(1 + ?u) * (?S / real ?n) \<le> (1 + ?u) * ((1 + ?u) ^ ?n * hi)"
    using unit_roundoff_bounds by (intro mult_left_mono) simp_all
  with rhi have B: "double_div ?S (real ?n) \<le> hi * (1 + ?u) ^ (?n + 1)"
    by (simp add: algebra_simps)
  from A B ne show ?thesis by (simp add: avg_confidence_double_def)
qed

lemma weighted_totals_double_folds:
  "weighted_totals_double bucket tw ws =
     (foldl double_add tw (map (\<lambda>(n, s). combined_weight_double n s) bucket),
      foldl double_add ws
        (map (\<lambda>(n, s). double_mul (confidence_score s) (combined_weight_double n s)) bucket))"
  by (induction bucket arbitrary: tw ws) auto

lemma total_weight_double_pos:
  "bucket \<noteq> [] \<Longrightarrow> 0 < sum_list (map (\<lambda>(n, s). combined_weight_double n s) bucket)"
proof (induction bucket)
  case Nil
  then show ?case by simp
next
  case (Cons x xs)
  obtain n s where x: "x = (n, s)" by (cases x)
  have "0 \<le> sum_list (map (\<lambda>(n, s). combined_weight_double n s) xs)"
    by (rule sum_list_nonneg) (auto simp add: less_imp_le combined_weight_double_pos)
  with combined_weight_double_pos [of n s] x show ?case by simp
qed

lemma rounded_products_bounds:
  assumes "\<forall>(n, s)\<in>set bucket. lo \<le> confidence_score s \<and> confidence_score s \<le> hi"
    and "0 \<le> lo"
  shows "(1 - unit_roundoff) * (lo * sum_list (map (\<lambda>(n, s). combined_weight_double n s) bucket))
           \<le> sum_list (map (\<lambda>(n, s). double_mul (confidence_score s)
                                        (combined_weight_double n s)) bucket)
       \<and> sum_list (map (\<lambda>(n, s). double_mul (confidence_score s)
                                     (combined_weight_double n s)) bucket)
           \<le> (1 + unit_roundoff) * (hi * sum_list (map (\<lambda>(n, s). combined_weight_double n s) bucket))"
  using assms(1)
proof (induction bucket)
  case Nil
  then show ?case by simp
next
  case (Cons x xs)
  let ?u = unit_roundoff
  obtain n s where x: "x = (n, s)" by (cases x)
  let ?c = "confidence_score s"
  let ?w = "combined_weight_double n s"
  from Cons.prems x have c: "lo \<le> ?c" "?c \<le> hi" by auto
  have w: "0 < ?w" by (rule combined_weight_double_pos)
  have cw: "0 \<le> ?c * ?w" using c assms(2) w by simp
  from round_double_error [OF cw]
  have p_lo: "(1 - ?u) * (?c * ?w) \<le> double_mul ?c ?w"
    and p_hi: "double_mul ?c ?w \<le> (1 + ?u) * (?c * ?w)"
    by (simp_all add: double_mul_def)
  have "lo * ?w \<le> ?c * ?w" using c w by (simp add: mult_right_mono)
  then have "(1 - ?u) * (lo * ?w) \<le> (1 - ?u) * (?c * ?w)"
    using unit_roundoff_bounds by (intro mult_left_mono) simp_all
  with p_lo have a: "(1 - ?u) * (lo * ?w) \<le> double_mul ?c ?w" by linarith
  have "?c * ?w \<le> hi * ?w" using c w by (simp add: mult_right_mono)
  then have "(1 + ?u) * (?c * ?w) \<le> (1 + ?u) * (hi * ?w)"
    using unit_roundoff_bounds by (intro mult_left_mono) simp_all
  with p_hi have b: "double_mul ?c ?w \<le> (1 + ?u) * (hi * ?w)" by linarith
  from Cons.IH Cons.prems
  have IH: "(1 - ?u) * (lo * sum_list (map (\<lambda>(n, s). combined_weight_double n s) xs))
           \<le> sum_list (map (\<lambda>(n, s). double_mul (confidence_score s)
                                        (combined_weight_double n s)) xs)"
    "sum_list (map (\<lambda>(n, s). double_mul (confidence_score s)
                                     (combined_weight_double n s)) xs)
           \<le> (1 + ?u) * (hi * sum_list (map (\<lambda>(n, s). combined_weight_double n s) xs))"
    by simp_all
  from a b IH x show ?case by (simp add: algebra_simps)
qed

lemma calculate_weighted_confidence_double_bounds:
  assumes ne: "bucket \<noteq> []"
    and b: "\<forall>(n, s)\<in>set bucket. lo \<le> confidence_score s \<and> confidence_score s \<le> hi"
    and lo: "0 \<le> lo"
  shows "lo * (1 - unit_roundoff) ^ (length bucket + 2)
           \<le> calculate_weighted_confidence_double bucket * (1 + unit_roundoff) ^ length bucket
       \<and> calculate_weighted_confidence_double bucket * (1 - unit_roundoff) ^ length bucket
           \<le> hi * (1 + unit_roundoff) ^ (length bucket + 2)"
proof -
  let ?u = unit_roundoff
  let ?n = "length bucket"
  let ?ws = "map (\<lambda>(n, s). combined_weight_double n s) bucket"
  let ?ps = "map (\<lambda>(n, s). double_mul (confidence_score s) (combined_weight_double n s)) bucket"
  define W where "W = sum_list ?ws"
  define P where "P = sum_list ?ps"
  define tw where "tw = foldl double_add 0 ?ws"
  define ws where "ws = foldl double_add 0 ?ps"
  define r where "r = double_div ws tw"
  define A where "A = (1 - ?u) ^ ?n"
  define B where "B = (1 + ?u) ^ ?n"
  have a0: "0 \<le> 1 - ?u" and b0: "0 \<le> 1 + ?u" using unit_roundoff_bounds by simp_all
  have A0: "0 < A" and B0: "0 < B" using unit_roundoff_bounds by (simp_all add: A_def B_def)
  have W0: "0 < W" unfolding W_def by (rule total_weight_double_pos [OF ne])
  have wnn: "\<forall>x\<in>set ?ws. 0 \<le> x" by (auto simp add: less_imp_le combined_weight_double_pos)
  have pnn: "\<forall>x\<in>set ?ps. 0 \<le> x"
  proof
    fix x assume "x \<in> set ?ps"
    then obtain n s where ns: "(n, s) \<in> set bucket"
      and x: "x = double_mul (confidence_score s) (combined_weight_double n s)" by auto
    from b ns lo have "0 \<le> confidence_score s" by force
    with combined_weight_double_pos [of n s]
    have "0 \<le> confidence_score s * combined_weight_double n s" by simp
    then show "0 \<le> x" unfolding x double_mul_def by (rule round_double_nonneg)
  qed
  from foldl_double_add_bounds [OF _ wnn, of 0]
  have tw_lo: "A * W \<le> tw" and tw_hi: "tw \<le> B * W"
    by (simp_all add: tw_def W_def A_def B_def)
  from foldl_double_add_bounds [OF _ pnn, of 0]
  have ws0: "0 \<le> ws" and ws_lo: "A * P \<le> ws" and ws_hi: "ws \<le> B * P"
    by (simp_all add: ws_def P_def A_def B_def)
  from rounded_products_bounds [OF b lo]
  have P_lo: "(1 - ?u) * (lo * W) \<le> P" and P_hi: "P \<le> (1 + ?u) * (hi * W)"
    by (simp_all add: P_def W_def)
  have tw0: "0 < tw"
  proof -
    have "0 < A * W" using A0 W0 by simp
    with tw_lo show ?thesis by linarith
  qed
  have res: "calculate_weighted_confidence_double bucket = r"
    using ne tw0
    by (simp add: calculate_weighted_confidence_double_def weighted_totals_double_folds
          r_def tw_def ws_def)
  have q0: "0 \<le> ws / tw" using ws0 tw0 by simp
  from round_double_error [OF q0]
  have r_lo: "(1 - ?u) * (ws / tw) \<le> r" and r_hi: "r \<le> (1 + ?u) * (ws / tw)"
    by (simp_all add: r_def double_div_def)
  have r0: "0 \<le> r" unfolding r_def double_div_def using q0 by (rule round_double_nonneg)
  have rt_lo: "(1 - ?u) * ws \<le> r * tw"
  proof -
    from r_lo have "(1 - ?u) * (ws / tw) * tw \<le> r * tw"
      using tw0 by (simp only: mult_le_cancel_right_pos)
    then show ?thesis using tw0 by simp
  qed
  have rt_hi: "r * tw \<le> (1 + ?u) * ws"
  proof -
    from r_hi have "r * tw \<le> (1 + ?u) * (ws / tw) * tw"
      using tw0 by (simp only: mult_le_cancel_right_pos)
    then show ?thesis using tw0 by simp
  qed
  have upper: "r * A \<le> hi * ((1 + ?u) * (B * (1 + ?u)))"
  proof -
    have "r * (A * W) \<le> r * tw" using tw_lo r0 by (rule mult_left_mono)
    also have "\<dots> \<le> (1 + ?u) * ws" by (rule rt_hi)
    also have "\<dots> \<le> (1 + ?u) * (B * P)" using ws_hi b0 by (rule mult_left_mono)
    also have "\<dots> \<le> (1 + ?u) * (B * ((1 + ?u) * (hi * W)))"
    proof -
      have "B * P \<le> B * ((1 + ?u) * (hi * W))" using P_hi B0 by (simp add: mult_left_mono)
      then show ?thesis using b0 by (rule mult_left_mono)
    qed
    finally have "(r * A) * W \<le> (hi * ((1 + ?u) * (B * (1 + ?u)))) * W"
      by (simp add: algebra_simps)
    then show ?thesis using W0 by (simp only: mult_le_cancel_right_pos)
  qed
  have lower: "lo * ((1 - ?u) * (A * (1 - ?u))) \<le> r * B"
  proof -
    have "(1 - ?u) * (A * ((1 - ?u) * (lo * W))) \<le> (1 - ?u) * (A * P)"
    proof -
      have "A * ((1 - ?u) * (lo * W)) \<le> A * P" using P_lo A0 by (simp add: mult_left_mono)
      then show ?thesis using a0 by (rule mult_left_mono)
    qed
    also have "\<dots> \<le> (1 - ?u) * ws" using ws_lo a0 by (rule mult_left_mono)
    also have "\<dots> \<le> r * tw" by (rule rt_lo)
    also have "\<dots> \<le> r * (B * W)" using tw_hi r0 by (rule mult_left_mono)
    finally have "(lo * ((1 - ?u) * (A * (1 - ?u)))) * W \<le> (r * B) * W"
      by (simp add: algebra_simps)
    then show ?thesis using W0 by (simp only: mult_le_cancel_right_pos)
  qed
  have pA: "(1 - ?u) ^ (?n + 2) = (1 - ?u) * (A * (1 - ?u))"
    by (simp add: A_def power2_eq_square algebra_simps power_add)
  have pB: "(1 + ?u) ^ (?n + 2) = (1 + ?u) * (B * (1 + ?u))"
    by (simp add: B_def power2_eq_square algebra_simps power_add)
  from upper lower show ?thesis
    unfolding res pA pB by (simp add: A_def B_def)
qed

text \<open>
  C6 (amended). For every non-empty bucket of candidates with non-negative confidence
  scores, the combined confidence lies between the least and the greatest contributing
  score up to rounding. With \<open>u = 2\<^sup>-\<^sup>5\<^sup>3\<close> and \<open>n\<close> candidates, the arithmetic mean of
  \<^verbatim>\<open>EnsembleStrategy\<close> is at least \<open>min * (1 - u)\<^sup>n\<^sup>+\<^sup>1\<close> and at most \<open>max * (1 + u)\<^sup>n\<^sup>+\<^sup>1\<close>, and
  the weighted mean \<open>c\<close> of \<^verbatim>\<open>WeightedEnsembleStrategy\<close> satisfies
  \<open>min * (1 - u)\<^sup>n\<^sup>+\<^sup>2 \<le> c * (1 + u)\<^sup>n\<close> and \<open>c * (1 - u)\<^sup>n \<le> max * (1 + u)\<^sup>n\<^sup>+\<^sup>2\<close>.
\<close>

theorem ensemble_confidence_between_min_and_max_up_to_rounding:
  assumes "bucket \<noteq> []"
    and "\<forall>(n, s)\<in>set bucket. 0 \<le> confidence_score s"
  shows "(\<exists>c. avg_confidence_double bucket = Some c
            \<and> Min ((\<lambda>(_, s). confidence_score s) ` set bucket)
                 * (1 - unit_roundoff) ^ (length bucket + 1) \<le> c
            \<and> c \<le> Max ((\<lambda>(_, s). confidence_score s) ` set bucket)
                 * (1 + unit_roundoff) ^ (length bucket + 1))
       \<and> Min ((\<lambda>(_, s). confidence_score s) ` set bucket)
            * (1 - unit_roundoff) ^ (length bucket + 2)
           \<le> calculate_weighted_confidence_double bucket * (1 + unit_roundoff) ^ length bucket
       \<and> calculate_weighted_confidence_double bucket * (1 - unit_roundoff) ^ length bucket
           \<le> Max ((\<lambda>(_, s). confidence_score s) ` set bucket)
                 * (1 + unit_roundoff) ^ (length bucket + 2)"
proof -
  let ?C = "(\<lambda>(_, s). confidence_score s) ` set bucket"
  have fin: "finite ?C" by simp
  have ne: "?C \<noteq> {}" using assms(1) by simp
  have b: "\<forall>(n, s)\<in>set bucket. Min ?C \<le> confidence_score s \<and> confidence_score s \<le> Max ?C"
  proof (clarify)
    fix n s assume "(n, s) \<in> set bucket"
    then have "confidence_score s \<in> ?C" by force
    with fin show "Min ?C \<le> confidence_score s \<and> confidence_score s \<le> Max ?C" by simp
  qed
  have "Min ?C \<in> ?C" using fin ne by (rule Min_in)
  then obtain n s where "(n, s) \<in> set bucket" "Min ?C = confidence_score s" by auto
  with assms(2) have lo: "0 \<le> Min ?C" by force
  from avg_confidence_double_bounds [OF assms(1) b lo]
    calculate_weighted_confidence_double_bounds [OF assms(1) b lo]
  show ?thesis by blast
qed

theorem ensemble_confidence_between_min_and_max_up_to_rounding_witness:
  "bucket_two_at_07 \<noteq> []
   \<and> (\<exists>c. avg_confidence_double bucket_two_at_07 = Some c
            \<and> Min ((\<lambda>(_, s). confidence_score s) ` set bucket_two_at_07)
                 * (1 - unit_roundoff) ^ (length bucket_two_at_07 + 1) \<le> c
            \<and> c \<le> Max ((\<lambda>(_, s). confidence_score s) ` set bucket_two_at_07)
                 * (1 + unit_roundoff) ^ (length bucket_two_at_07 + 1))
   \<and> Min ((\<lambda>(_, s). confidence_score s) ` set bucket_two_at_07)
        * (1 - unit_roundoff) ^ (length bucket_two_at_07 + 2)
       \<le> calculate_weighted_confidence_double bucket_two_at_07
            * (1 + unit_roundoff) ^ length bucket_two_at_07
   \<and> calculate_weighted_confidence_double bucket_two_at_07
        * (1 - unit_roundoff) ^ length bucket_two_at_07
       \<le> Max ((\<lambda>(_, s). confidence_score s) ` set bucket_two_at_07)
             * (1 + unit_roundoff) ^ (length bucket_two_at_07 + 2)"
proof -
  have ne: "bucket_two_at_07 \<noteq> []" by (simp add: bucket_two_at_07_def)
  have "(0::real) \<le> 0.7" by simp
  then have "0 \<le> round_double 0.7" by (rule round_double_nonneg)
  then have nonneg: "\<forall>(n, s)\<in>set bucket_two_at_07. 0 \<le> confidence_score s"
    by (simp add: bucket_two_at_07_def candidate_def)
  from ensemble_confidence_between_min_and_max_up_to_rounding [OF ne nonneg] ne
  show ?thesis by blast
qed

subsection \<open>Quorum, isolation and the early return\<close>

lemma ensemble_bucket_emits:
  assumes "ensemble_bucket cf ind db mc ms inst cp t bucket = Some out" and "s \<in> set out"
  shows "signal_type s = t \<and> ms \<le> int (length bucket)
       \<and> cf bucket = Some (confidence_score s) \<and> mc \<le> confidence_score s"
  using assms
  by (auto simp add: ensemble_bucket_def save_signal_def ensemble_signal_data_def Let_def
        split: if_splits option.splits)

lemma ensemble_generate_emits:
  assumes "s \<in> set (ensemble_generate cf ind db mc ms inst runs)"
  shows "(signal_type s = LONG_CALL \<or> signal_type s = LONG_PUT)
       \<and> ms \<le> int (length (signals_of_type (signal_type s) (collect_strategy_signals runs)))
       \<and> cf (signals_of_type (signal_type s) (collect_strategy_signals runs))
           = Some (confidence_score s)
       \<and> mc \<le> confidence_score s"
proof -
  let ?calls = "signals_of_type LONG_CALL (collect_strategy_signals runs)"
  let ?puts = "signals_of_type LONG_PUT (collect_strategy_signals runs)"
  from assms obtain cp where cp: "last_price inst = Some cp" "cp \<noteq> 0"
    by (cases "last_price inst") (auto simp add: ensemble_generate_def split: if_splits)
  have gen: "ensemble_generate cf ind db mc ms inst runs =
          (case ensemble_bucket cf ind db mc ms inst cp LONG_CALL ?calls of
             None \<Rightarrow> []
           | Some calls \<Rightarrow>
               (case ensemble_bucket cf ind db mc ms inst cp LONG_PUT ?puts of
                  None \<Rightarrow> calls
                | Some puts \<Rightarrow> calls @ puts))"
    using cp by (simp add: ensemble_generate_def Let_def)
  show ?thesis
  proof (cases "ensemble_bucket cf ind db mc ms inst cp LONG_CALL ?calls")
    case None
    with gen assms show ?thesis by simp
  next
    case calls: (Some calls)
    show ?thesis
    proof (cases "s \<in> set calls")
      case True
      from ensemble_bucket_emits [OF calls True] show ?thesis by simp
    next
      case False
      with gen calls assms obtain puts
        where puts: "ensemble_bucket cf ind db mc ms inst cp LONG_PUT ?puts = Some puts"
          and mem: "s \<in> set puts"
        by (cases "ensemble_bucket cf ind db mc ms inst cp LONG_PUT ?puts") auto
      from ensemble_bucket_emits [OF puts mem] show ?thesis by simp
    qed
  qed
qed

text \<open>
  C7. When fewer than \<open>min_strategies\<close> candidate signals of a type \<open>t\<close> were collected, no
  signal of type \<open>t\<close> is among the signals the ensemble returns, in either class.
\<close>

theorem ensemble_quorum_required:
  assumes "int (length (signals_of_type t (collect_strategy_signals runs))) < min_strategies"
  shows "t \<notin> signal_type ` set (EnsembleStrategy_generate_signals db min_confidence
                                      min_strategies instrument runs)
       \<and> t \<notin> signal_type ` set (WeightedEnsembleStrategy_generate_signals db min_confidence
                                        min_strategies instrument runs)"
  using assms
  unfolding EnsembleStrategy_generate_signals_def WeightedEnsembleStrategy_generate_signals_def
  by (auto dest!: ensemble_generate_emits)

lemma collect_step_Raises: "collect_step acc (name, Raises) = acc"
  by (simp add: collect_step_def)

lemma collect_step_empty: "collect_step acc (name, Returns []) = acc"
  by (simp add: collect_step_def)

lemma collect_skip:
  "collect_strategy_signals (before @ (name, Raises) # after)
     = collect_strategy_signals (before @ after)"
  "collect_strategy_signals (before @ (name, Returns []) # after)
     = collect_strategy_signals (before @ after)"
  by (simp_all add: collect_strategy_signals_def collect_step_Raises collect_step_empty)

lemma ensemble_generate_cong:
  "collect_strategy_signals runs = collect_strategy_signals runs'
     \<Longrightarrow> ensemble_generate cf ind db mc ms inst runs = ensemble_generate cf ind db mc ms inst runs'"
  by (simp add: ensemble_generate_def cong: option.case_cong if_cong)

text \<open>
  C9. A constituent strategy that raises contributes nothing and stops nothing: the
  strategies after it are still folded into the collected signals, and the ensemble
  returns what it returns when that strategy returns no candidates, which is also what it
  returns when the strategy is not there at all.
\<close>

theorem failing_strategy_isolated:
  "EnsembleStrategy_generate_signals db mc ms instrument (before @ (name, Raises) # after)
     = EnsembleStrategy_generate_signals db mc ms instrument (before @ (name, Returns []) # after)
   \<and> EnsembleStrategy_generate_signals db mc ms instrument (before @ (name, Raises) # after)
     = EnsembleStrategy_generate_signals db mc ms instrument (before @ after)
   \<and> collect_strategy_signals (before @ (name, Raises) # after)
     = foldl collect_step (collect_strategy_signals before) after
   \<and> WeightedEnsembleStrategy_generate_signals db mc ms instrument (before @ (name, Raises) # after)
     = WeightedEnsembleStrategy_generate_signals db mc ms instrument (before @ (name, Returns []) # after)"
proof -
  have a: "collect_strategy_signals (before @ (name, Raises) # after)
             = collect_strategy_signals (before @ (name, Returns []) # after)"
    by (simp add: collect_skip)
  have b: "collect_strategy_signals (before @ (name, Raises) # after)
             = collect_strategy_signals (before @ after)"
    by (simp add: collect_skip)
  have c: "collect_strategy_signals (before @ (name, Raises) # after)
             = foldl collect_step (collect_strategy_signals before) after"
    by (simp add: collect_strategy_signals_def collect_step_Raises)
  show ?thesis
    unfolding EnsembleStrategy_generate_signals_def WeightedEnsembleStrategy_generate_signals_def
    by (intro conjI ensemble_generate_cong a b c)
qed

text \<open>
  C10. When the instrument has a price, the call bucket meets the quorum and its combined
  confidence reaches \<open>min_confidence\<close>, but no call option qualifies, the method returns at
  once with no signal at all: the put bucket is never looked at.
\<close>

theorem failed_call_lookup_skips_put_bucket:
  assumes "last_price instrument = Some cp" and "cp \<noteq> 0"
    and "min_strategies \<le> int (length (signals_of_type LONG_CALL (collect_strategy_signals runs)))"
    and "find_atm_options db (inst_id instrument) cp ''call'' = None"
  shows "(\<forall>c. avg_confidence (signals_of_type LONG_CALL (collect_strategy_signals runs)) = Some c
              \<and> min_confidence \<le> c
            \<longrightarrow> EnsembleStrategy_generate_signals db min_confidence min_strategies
                  instrument runs = [])
       \<and> (min_confidence
             \<le> calculate_weighted_confidence (signals_of_type LONG_CALL (collect_strategy_signals runs))
            \<longrightarrow> WeightedEnsembleStrategy_generate_signals db min_confidence min_strategies
                  instrument runs = [])"
  using assms
  by (auto simp add: EnsembleStrategy_generate_signals_def
        WeightedEnsembleStrategy_generate_signals_def ensemble_generate_def
        ensemble_bucket_def option_type_of_def Let_def)

subsection \<open>The scenarios of the specification, evaluated\<close>

text \<open>
  Scenario B: two strategies emit \<open>LONG_CALL\<close> at 0.7 and 0.8, quorum 2, minimum confidence
  0.6: one combined \<open>LONG_CALL\<close> at 0.75. Scenario C: a single \<open>LONG_CALL\<close> at 0.9: nothing.
\<close>

lemma scenario_B:
  "map (\<lambda>s. (signal_type s, confidence_score s))
     (EnsembleStrategy_generate_signals signal_db_example 0.6 2 instrument_example runs_scenario_B)
   = [(LONG_CALL, 0.75)]"
  by code_simp

lemma scenario_C:
  "EnsembleStrategy_generate_signals signal_db_example 0.6 2 instrument_example runs_scenario_C = []"
  by code_simp

theorem ensemble_quorum_required_witness:
  "int (length (signals_of_type LONG_CALL (collect_strategy_signals runs_scenario_C))) < 2
   \<and> LONG_CALL \<notin> signal_type ` set (EnsembleStrategy_generate_signals signal_db_example 0.6 2
                                        instrument_example runs_scenario_C)
   \<and> LONG_CALL \<notin> signal_type ` set (WeightedEnsembleStrategy_generate_signals signal_db_example
                                        0.6 2 instrument_example runs_scenario_C)"
proof -
  have h: "int (length (signals_of_type LONG_CALL (collect_strategy_signals runs_scenario_C))) < 2"
    by code_simp
  from ensemble_quorum_required [OF h] h show ?thesis by blast
qed

lemma put_signal_emitted_without_calls:
  "map signal_type
     (EnsembleStrategy_generate_signals signal_db_no_calls 0.6 2 instrument_example runs_puts_only)
   = [LONG_PUT]"
  by code_simp

theorem failed_call_lookup_skips_put_bucket_witness:
  "last_price instrument_example = Some 200
   \<and> 2 \<le> int (length (signals_of_type LONG_CALL (collect_strategy_signals runs_both_directions)))
   \<and> find_atm_options signal_db_no_calls (inst_id instrument_example) 200 ''call'' = None
   \<and> avg_confidence (signals_of_type LONG_CALL (collect_strategy_signals runs_both_directions))
       = Some 0.75
   \<and> EnsembleStrategy_generate_signals signal_db_no_calls 0.6 2 instrument_example
       runs_both_directions = []
   \<and> WeightedEnsembleStrategy_generate_signals signal_db_no_calls 0.6 2 instrument_example
       runs_both_directions = []
   \<and> 2 \<le> int (length (signals_of_type LONG_PUT (collect_strategy_signals runs_both_directions)))
   \<and> avg_confidence (signals_of_type LONG_PUT (collect_strategy_signals runs_both_directions))
       = Some 0.85
   \<and> find_atm_options signal_db_no_calls (inst_id instrument_example) 200 ''put''
       = Some put_option_example"
proof -
  have a: "last_price instrument_example = Some 200" by (simp add: instrument_example_def)
  have b: "(200::real) \<noteq> 0" by simp
  have c: "2 \<le> int (length (signals_of_type LONG_CALL (collect_strategy_signals runs_both_directions)))"
    by code_simp
  have d: "find_atm_options signal_db_no_calls (inst_id instrument_example) 200 ''call'' = None"
    by code_simp
  have e: "avg_confidence (signals_of_type LONG_CALL (collect_strategy_signals runs_both_directions))
             = Some 0.75"
    by code_simp
  have f: "(0.6::real) \<le> 0.75" by simp
  have g: "(0.6::real) \<le> calculate_weighted_confidence
             (signals_of_type LONG_CALL (collect_strategy_signals runs_both_directions))"
    by code_simp
  have p1: "2 \<le> int (length (signals_of_type LONG_PUT (collect_strategy_signals runs_both_directions)))"
    by code_simp
  have p2: "avg_confidence (signals_of_type LONG_PUT (collect_strategy_signals runs_both_directions))
              = Some 0.85"
    by code_simp
  have p3: "find_atm_options signal_db_no_calls (inst_id instrument_example) 200 ''put''
              = Some put_option_example"
    by code_simp
  from failed_call_lookup_skips_put_bucket [OF a b c d, of "0.6"] e f g
  have "EnsembleStrategy_generate_signals signal_db_no_calls 0.6 2 instrument_example
          runs_both_directions = []"
    and "WeightedEnsembleStrategy_generate_signals signal_db_no_calls 0.6 2 instrument_example
          runs_both_directions = []"
    by blast+
  with a c d e p1 p2 p3 show ?thesis by blast
qed

section \<open>Verified properties: earnings strategy\<close>










end
